theory Spec2Isabelle
  imports Main "HOL-Library.Multiset"
begin

section \<open>The SFTP download script with optional S3 upload (cegid-import.py)\<close>

text \<open>
  The script talks to three outside parties: the paramiko SFTP client, the boto3 S3
  client, and the local operating system (temporary directory, local files). None of
  them is part of the script, so each call the script makes to them is a \<open>call\<close>, the
  run keeps the list of the calls made so far (in the order they were made), and an
  environment decides, from the calls made so far, whether the next call raises and what
  it returns. Quantifying over environments is quantifying over every behaviour of the
  collaborators. Logging and printing are left out: they do not influence control flow.
\<close>

subsection \<open>Text\<close>

text \<open>
  A Python \<open>str\<close> is a sequence of Unicode code points, and is a list of code points
  (integers, as \<open>ord\<close> gives them) here: \<open>[97, 46, 99, 115, 118]\<close> is \<open>a.csv\<close>, \<open>[160]\<close> is a
  no-break space. The CSV file
  is opened with \<open>encoding='utf-8'\<close>, so the reader hands out decoded text, and the
  operations of the script on text (\<open>strip\<close>, \<open>rstrip\<close>, \<open>in\<close>, truth of a \<open>str\<close>) work on
  code points. \<open>ascii\<close> writes the \<open>str\<close> of an ASCII literal.
\<close>

type_synonym str = "int list"

definition ascii :: "char list \<Rightarrow> str" where
  "ascii s = map of_char s"

subsection \<open>Exceptions, calls and the environment\<close>

text \<open>
  The \<open>except\<close> clauses of the script tell three kinds of exception apart:
  \<open>FileNotFoundError\<close>, botocore's \<open>ClientError\<close> (with the error code of its response)
  and every other subclass of \<open>Exception\<close>.
\<close>

datatype exn = FileNotFoundError | ClientError str | OtherException

datatype call =
    SSHConnect str int str str
  | OpenSftp
  | SftpClose
  | SSHClose
  | Chdir str
  | Stat str
  | Get str str
  | Remove str
  | Listdir
  | Boto3Client "str option"
  | HeadBucket str
  | HeadObject str str
  | UploadFile str str str
  | Mkdtemp str
  | Mkdir str
  | OsRemove str
  | Rmtree str

text \<open>
  What \<open>open(csv_path)\<close> and \<open>csv.DictReader\<close> give for a path. \<open>open\<close> raises
  \<open>FileNotFoundError\<close> (\<open>Absent\<close>), raises another exception (\<open>Unreadable\<close>) or
  returns the file. Then \<open>reader.fieldnames\<close> raises (a decoding or CSV error), is \<open>None\<close>
  (the file has no header line) or is the list of column names; and every step of the
  iteration over the reader either raises or gives a row, a dictionary whose values are
  strings or \<open>None\<close> (the value \<open>DictReader\<close> fills a short line with).
\<close>

datatype header = HeaderFails | NoHeader | Header "str list"

datatype row_read = RowFails | Row "str \<rightharpoonup> str option"

datatype csv_file = Absent | Unreadable | Opened header "row_read list"

text \<open>
  \<open>raises E t c\<close> is the exception call \<open>c\<close> raises after the calls \<open>t\<close>, or \<open>None\<close>
  when it returns. The other fields are the values the calls return when they return:
  the directory \<open>tempfile.mkdtemp\<close> made, the names \<open>sftp.listdir()\<close> lists, and
  what \<open>stat.S_ISDIR\<close> says of the \<open>st_mode\<close> that \<open>sftp.stat\<close> returned (\<open>None\<close> when the
  server sent no mode: \<open>st_mode\<close> is \<open>None\<close> then, and \<open>S_ISDIR\<close> raises \<open>TypeError\<close>). \<open>pathlib_join a b\<close> is
  \<open>str(Path(a) / b)\<close>, \<open>pathlib_parent a b\<close> is \<open>str((Path(a) / b).parent)\<close> and
  \<open>os_path_join\<close> is \<open>os.path.join\<close>: library functions on path strings.
  \<open>open_csv\<close> is the file system as \<open>read_csv_filenames\<close> sees it.
\<close>

record env =
  raises :: "call list \<Rightarrow> call \<Rightarrow> exn option"
  mkdtemp_result :: "call list \<Rightarrow> str"
  listdir_result :: "call list \<Rightarrow> str list"
  stat_isdir :: "call list \<Rightarrow> str \<Rightarrow> bool option"
  pathlib_join :: "str \<Rightarrow> str \<Rightarrow> str"
  pathlib_parent :: "str \<Rightarrow> str \<Rightarrow> str"
  os_path_join :: "str \<Rightarrow> str \<Rightarrow> str"
  open_csv :: "str \<Rightarrow> csv_file"

text \<open>Making a call: the environment answers from the history, the call is appended.\<close>

definition perform :: "env \<Rightarrow> call \<Rightarrow> call list \<Rightarrow> exn option \<times> call list" where
  "perform E c t = (raises E t c, t @ [c])"

subsection \<open>SFTPManager\<close>

text \<open>
  The fields \<open>ssh\<close> and \<open>sftp\<close> hold a client object or \<open>None\<close>; only whether they are
  set matters to the script, so they are booleans here. A method called while \<open>sftp\<close> is
  \<open>None\<close> raises \<open>AttributeError\<close> at the attribute access, before any call is made.
\<close>

record SFTPManager =
  host :: str
  username :: str
  password :: str
  port :: int
  ssh :: bool
  sftp :: bool

text \<open>\<open>self.sftp.<method>(...)\<close>: \<open>AttributeError\<close> without a client, the call otherwise.\<close>

definition sftp_call :: "env \<Rightarrow> SFTPManager \<Rightarrow> call \<Rightarrow> call list \<Rightarrow> exn option \<times> call list" where
  "sftp_call E m c t = (if sftp m then perform E c t else (Some OtherException, t))"

definition change_directory :: "env \<Rightarrow> SFTPManager \<Rightarrow> str \<Rightarrow> call list \<Rightarrow> bool \<times> call list" where
  "change_directory E m remote_path t =
     (case sftp_call E m (Chdir remote_path) t of
        (None, t') \<Rightarrow> (True, t')
      | (Some e, t') \<Rightarrow> (False, t'))"

definition file_exists :: "env \<Rightarrow> SFTPManager \<Rightarrow> str \<Rightarrow> call list \<Rightarrow> bool \<times> call list" where
  "file_exists E m filename t =
     (case sftp_call E m (Stat filename) t of
        (None, t') \<Rightarrow> (True, t')
      | (Some FileNotFoundError, t') \<Rightarrow> (False, t')
      | (Some e, t') \<Rightarrow> (False, t'))"

text \<open>
  Both download methods first ask for the file size inside a \<open>try\<close> with a bare
  \<open>except\<close> (the answer is only used for the progress display), then call \<open>sftp.get\<close>.
\<close>

definition download_file_to_local ::
  "env \<Rightarrow> SFTPManager \<Rightarrow> str \<Rightarrow> str \<Rightarrow> call list \<Rightarrow> str option \<times> call list" where
  "download_file_to_local E m remote_filename local_path t =
     (let local_filepath = pathlib_join E local_path remote_filename in
      case perform E (Mkdir (pathlib_parent E local_path remote_filename)) t of
        (Some e, t1) \<Rightarrow> (None, t1)
      | (None, t1) \<Rightarrow>
          (let t2 = snd (sftp_call E m (Stat remote_filename) t1) in
           case sftp_call E m (Get remote_filename local_filepath) t2 of
             (Some e, t3) \<Rightarrow> (None, t3)
           | (None, t3) \<Rightarrow> (Some local_filepath, t3)))"

definition download_file_to_temp ::
  "env \<Rightarrow> SFTPManager \<Rightarrow> str \<Rightarrow> str \<Rightarrow> call list \<Rightarrow> str option \<times> call list" where
  "download_file_to_temp E m remote_filename temp_dir t =
     (let temp_filepath = os_path_join E temp_dir remote_filename;
          t1 = snd (sftp_call E m (Stat remote_filename) t) in
      case sftp_call E m (Get remote_filename temp_filepath) t1 of
        (Some e, t2) \<Rightarrow> (None, t2)
      | (None, t2) \<Rightarrow> (Some temp_filepath, t2))"

definition delete_file :: "env \<Rightarrow> SFTPManager \<Rightarrow> str \<Rightarrow> call list \<Rightarrow> bool \<times> call list" where
  "delete_file E m filename t =
     (case sftp_call E m (Remove filename) t of
        (None, t') \<Rightarrow> (True, t')
      | (Some e, t') \<Rightarrow> (False, t'))"

subsection \<open>S3Manager\<close>

record S3Manager =
  bucket_name :: str
  aws_region :: "str option"

text \<open>\<open>upload_file\<close> catches every \<open>Exception\<close>.\<close>

definition upload_file :: "env \<Rightarrow> S3Manager \<Rightarrow> str \<Rightarrow> str \<Rightarrow> call list \<Rightarrow> bool \<times> call list" where
  "upload_file E s local_file_path s3_key t =
     (case perform E (UploadFile local_file_path (bucket_name s) s3_key) t of
        (None, t') \<Rightarrow> (True, t')
      | (Some e, t') \<Rightarrow> (False, t'))"

text \<open>
  \<open>S3Manager.file_exists\<close> has one handler, \<open>except ClientError\<close>: it returns \<open>False\<close>
  for the code 404 and for every other code. Any other exception leaves the method.
\<close>

definition s3_file_exists :: "env \<Rightarrow> S3Manager \<Rightarrow> str \<Rightarrow> call list \<Rightarrow> (exn + bool) \<times> call list" where
  "s3_file_exists E s s3_key t =
     (case perform E (HeadObject (bucket_name s) s3_key) t of
        (None, t') \<Rightarrow> (Inr True, t')
      | (Some (ClientError code), t') \<Rightarrow> (if code = (ascii ''404'') then (Inr False, t') else (Inr False, t'))
      | (Some e, t') \<Rightarrow> (Inl e, t'))"

subsection \<open>The Run Result\<close>

text \<open>The dictionary \<open>results\<close> has six fixed keys, each holding a list of filenames.\<close>

record results =
  success :: "str list"
  sftp_not_found :: "str list"
  sftp_download_failed :: "str list"
  s3_upload_failed :: "str list"
  sftp_delete_failed :: "str list"
  s3_already_exists :: "str list"

definition empty_results :: results where
  "empty_results = \<lparr>success = [], sftp_not_found = [], sftp_download_failed = [],
     s3_upload_failed = [], sftp_delete_failed = [], s3_already_exists = []\<rparr>"

subsection \<open>process_files\<close>

text \<open>The parameters of \<open>process_files\<close> besides the two managers and the filenames.\<close>

record options =
  remote_sftp_path :: str
  local_download_path :: str
  s3_prefix :: str
  delete_from_sftp :: bool
  overwrite_s3 :: bool

text \<open>\<open>s.rstrip('/')\<close>\<close>

definition rstrip_slash :: "str \<Rightarrow> str" where
  "rstrip_slash s = rev (dropWhile (\<lambda>c. c = of_char (CHR ''/'')) (rev s))"

text \<open>\<open>f"{s3_prefix.rstrip('/')}/{filename}" if s3_prefix else filename\<close>\<close>

definition s3_key_of :: "str \<Rightarrow> str \<Rightarrow> str" where
  "s3_key_of prefix filename =
     (if prefix \<noteq> [] then rstrip_slash prefix @ (ascii ''/'') @ filename else filename)"

text \<open>
  The S3-specific checks (lines 317-325): \<open>Inr True\<close> when the file is recorded as
  already existing and the iteration ends, \<open>Inr False\<close> when it goes on, \<open>Inl e\<close> when
  \<open>s3_manager.file_exists\<close> raised. The \<open>and\<close> is short-circuit: with \<open>overwrite_s3\<close> set
  the existence check is not called.
\<close>

definition s3_checks ::
  "env \<Rightarrow> S3Manager option \<Rightarrow> options \<Rightarrow> str \<Rightarrow> call list \<Rightarrow> (exn + bool) \<times> call list" where
  "s3_checks E s3_manager opts filename t =
     (case s3_manager of
        None \<Rightarrow> (Inr False, t)
      | Some s \<Rightarrow>
          (if \<not> overwrite_s3 opts then s3_file_exists E s (s3_key_of (s3_prefix opts) filename) t
           else (Inr False, t)))"

text \<open>The download (lines 327-331).\<close>

definition download ::
  "env \<Rightarrow> SFTPManager \<Rightarrow> S3Manager option \<Rightarrow> str \<Rightarrow> str \<Rightarrow> call list \<Rightarrow> str option \<times> call list" where
  "download E m s3_manager filename download_dir t =
     (if s3_manager \<noteq> None then download_file_to_temp E m filename download_dir t
      else download_file_to_local E m filename download_dir t)"

text \<open>
  The upload (lines 337-359), a block under \<open>if use_s3\<close>: the first component of the
  result tells whether the iteration goes on to the deletion (without S3 it does; with S3
  it is \<open>upload_success\<close>). \<open>os.remove\<close> is called whatever the upload returned, its
  exception swallowed. As \<open>upload_file\<close> never raises, the handler \<open>except Exception\<close>
  around the block is never entered.
\<close>

definition upload_step ::
  "env \<Rightarrow> S3Manager option \<Rightarrow> options \<Rightarrow> str \<Rightarrow> str \<Rightarrow> results \<times> call list \<Rightarrow>
   bool \<times> results \<times> call list" where
  "upload_step E s3_manager opts filename file_path st =
     (case st of (res, t) \<Rightarrow>
        (case s3_manager of
           None \<Rightarrow> (True, res, t)
         | Some s \<Rightarrow>
             (case upload_file E s file_path (s3_key_of (s3_prefix opts) filename) t of
                (True, t1) \<Rightarrow> (True, res, snd (perform E (OsRemove file_path) t1))
              | (False, t1) \<Rightarrow>
                  (False, res\<lparr>s3_upload_failed := s3_upload_failed res @ [filename]\<rparr>,
                   snd (perform E (OsRemove file_path) t1)))))"

text \<open>Deletion from the source and the success mark (lines 361-369).\<close>

definition delete_and_mark ::
  "env \<Rightarrow> SFTPManager \<Rightarrow> options \<Rightarrow> str \<Rightarrow> results \<times> call list \<Rightarrow> results \<times> call list" where
  "delete_and_mark E m opts filename st =
     (case st of (res, t) \<Rightarrow>
        (if delete_from_sftp opts then
           (case delete_file E m filename t of
              (True, t1) \<Rightarrow> (res\<lparr>success := success res @ [filename]\<rparr>, t1)
            | (False, t1) \<Rightarrow>
                (res\<lparr>sftp_delete_failed := sftp_delete_failed res @ [filename],
                     success := success res @ [filename]\<rparr>, t1))
         else (res\<lparr>success := success res @ [filename]\<rparr>, t)))"

text \<open>
  One iteration of the loop over the filenames (lines 309-369). The first component is
  the exception that leaves the iteration, if any. A path that is \<open>None\<close> or the empty
  str is falsy (\<open>if not file_path\<close>).
\<close>

definition process_file ::
  "env \<Rightarrow> SFTPManager \<Rightarrow> S3Manager option \<Rightarrow> options \<Rightarrow> str \<Rightarrow> str \<Rightarrow>
   results \<times> call list \<Rightarrow> exn option \<times> results \<times> call list" where
  "process_file E m s3_manager opts download_dir filename st =
     (case st of (res, t) \<Rightarrow>
        (case file_exists E m filename t of
           (False, t1) \<Rightarrow> (None, res\<lparr>sftp_not_found := sftp_not_found res @ [filename]\<rparr>, t1)
         | (True, t1) \<Rightarrow>
             (case s3_checks E s3_manager opts filename t1 of
                (Inl e, t2) \<Rightarrow> (Some e, res, t2)
              | (Inr True, t2) \<Rightarrow>
                  (None, res\<lparr>s3_already_exists := s3_already_exists res @ [filename]\<rparr>, t2)
              | (Inr False, t2) \<Rightarrow>
                  (case download E m s3_manager filename download_dir t2 of
                     (None, t3) \<Rightarrow>
                       (None, res\<lparr>sftp_download_failed := sftp_download_failed res @ [filename]\<rparr>, t3)
                   | (Some file_path, t3) \<Rightarrow>
                       (if file_path = [] then
                          (None, res\<lparr>sftp_download_failed := sftp_download_failed res @ [filename]\<rparr>, t3)
                        else
                          (case upload_step E s3_manager opts filename file_path (res, t3) of
                             (False, st4) \<Rightarrow> (None, st4)
                           | (True, st4) \<Rightarrow> (None, delete_and_mark E m opts filename st4)))))))"

text \<open>The \<open>for\<close> loop: an exception ends it and leaves with the state reached.\<close>

fun process_loop ::
  "env \<Rightarrow> SFTPManager \<Rightarrow> S3Manager option \<Rightarrow> options \<Rightarrow> str \<Rightarrow> str list \<Rightarrow>
   results \<times> call list \<Rightarrow> exn option \<times> results \<times> call list" where
  "process_loop E m s3_manager opts download_dir [] st = (None, st)"
| "process_loop E m s3_manager opts download_dir (filename # filenames) st =
     (case process_file E m s3_manager opts download_dir filename st of
        (Some e, st') \<Rightarrow> (Some e, st')
      | (None, st') \<Rightarrow> process_loop E m s3_manager opts download_dir filenames st')"

text \<open>
  The \<open>finally\<close> block (lines 371-378): with S3, \<open>shutil.rmtree\<close> of the temporary
  directory, its exception swallowed.
\<close>

definition cleanup :: "env \<Rightarrow> bool \<Rightarrow> str \<Rightarrow> call list \<Rightarrow> call list" where
  "cleanup E use_s3 download_dir t =
     (if use_s3 then snd (perform E (Rmtree download_dir) t) else t)"

text \<open>
  The \<open>try ... finally\<close> around the loop, then \<open>return results\<close>: an exception of the loop
  is raised again after the cleanup, and the results are lost with it.
\<close>

definition run_loop ::
  "env \<Rightarrow> SFTPManager \<Rightarrow> S3Manager option \<Rightarrow> options \<Rightarrow> str \<Rightarrow> str list \<Rightarrow>
   call list \<Rightarrow> (exn + results) \<times> call list" where
  "run_loop E m s3_manager opts download_dir filenames t =
     (case process_loop E m s3_manager opts download_dir filenames (empty_results, t) of
        (None, res, t') \<Rightarrow> (Inr res, cleanup E (s3_manager \<noteq> None) download_dir t')
      | (Some e, res, t') \<Rightarrow> (Inl e, cleanup E (s3_manager \<noteq> None) download_dir t'))"

text \<open>
  \<open>process_files\<close> (lines 276-380). The temporary directory is made, and the local
  directory is created, before the \<open>try\<close>: an exception there leaves the function at once.
\<close>

definition process_files ::
  "env \<Rightarrow> SFTPManager \<Rightarrow> S3Manager option \<Rightarrow> str list \<Rightarrow> options \<Rightarrow> call list \<Rightarrow>
   (exn + results) \<times> call list" where
  "process_files E m s3_manager filenames opts t =
     (case change_directory E m (remote_sftp_path opts) t of
        (False, t1) \<Rightarrow> (Inr empty_results, t1)
      | (True, t1) \<Rightarrow>
          (if s3_manager \<noteq> None then
             (case perform E (Mkdtemp (ascii ''ftp_download_'')) t1 of
                (Some e, t2) \<Rightarrow> (Inl e, t2)
              | (None, t2) \<Rightarrow> run_loop E m s3_manager opts (mkdtemp_result E t1) filenames t2)
           else
             (case perform E (Mkdir (local_download_path opts)) t1 of
                (Some e, t2) \<Rightarrow> (Inl e, t2)
              | (None, t2) \<Rightarrow> run_loop E m s3_manager opts (local_download_path opts) filenames t2)))"

subsection \<open>The remaining methods of the managers\<close>

text \<open>
  \<open>connect\<close>: \<open>self.ssh\<close> is assigned before \<open>ssh.connect\<close> is called, \<open>self.sftp\<close> only
  when \<open>open_sftp\<close> returned.
\<close>

definition connect :: "env \<Rightarrow> SFTPManager \<Rightarrow> call list \<Rightarrow> bool \<times> SFTPManager \<times> call list" where
  "connect E m t =
     (let m1 = m\<lparr>ssh := True\<rparr> in
      case perform E (SSHConnect (host m) (port m) (username m) (password m)) t of
        (Some e, t1) \<Rightarrow> (False, m1, t1)
      | (None, t1) \<Rightarrow>
          (case perform E OpenSftp t1 of
             (Some e, t2) \<Rightarrow> (False, m1, t2)
           | (None, t2) \<Rightarrow> (True, m1\<lparr>sftp := True\<rparr>, t2)))"

definition disconnect :: "env \<Rightarrow> SFTPManager \<Rightarrow> call list \<Rightarrow> call list" where
  "disconnect E m t =
     (let t1 = (if sftp m then snd (perform E SftpClose t) else t) in
      if ssh m then snd (perform E SSHClose t1) else t1)"

text \<open>
  The loop of \<open>list_files\<close>: an entry that \<open>stat\<close> shows not to be a directory is kept; when
  \<open>stat\<close> raises, or \<open>S_ISDIR\<close> does, the bare \<open>except\<close> keeps the entry if its name has a
  dot.
\<close>

fun list_files_loop ::
  "env \<Rightarrow> SFTPManager \<Rightarrow> str list \<Rightarrow> str list \<times> call list \<Rightarrow> str list \<times> call list" where
  "list_files_loop E m [] st = st"
| "list_files_loop E m (item # file_list) (files, t) =
     (case sftp_call E m (Stat item) t of
        (None, t1) \<Rightarrow>
          (case stat_isdir E t item of
             Some isdir \<Rightarrow>
               list_files_loop E m file_list (if \<not> isdir then files @ [item] else files, t1)
           | None \<Rightarrow>
               list_files_loop E m file_list
                 (if of_char (CHR ''.'') \<in> set item then files @ [item] else files, t1))
      | (Some e, t1) \<Rightarrow>
          list_files_loop E m file_list
            (if of_char (CHR ''.'') \<in> set item then files @ [item] else files, t1))"

definition list_files :: "env \<Rightarrow> SFTPManager \<Rightarrow> call list \<Rightarrow> str list \<times> call list" where
  "list_files E m t =
     (case sftp_call E m Listdir t of
        (Some e, t1) \<Rightarrow> ([], t1)
      | (None, t1) \<Rightarrow> list_files_loop E m (listdir_result E t) ([], t1))"

text \<open>
  \<open>S3Manager.__init__\<close>: the client is made (with the region when one is given and not
  empty), then \<open>head_bucket\<close> tests the connection. The handlers log and raise again, so
  every exception leaves the constructor.
\<close>

definition S3Manager_init ::
  "env \<Rightarrow> str \<Rightarrow> str option \<Rightarrow> call list \<Rightarrow> (exn + S3Manager) \<times> call list" where
  "S3Manager_init E bucket region t =
     (case perform E (Boto3Client (if region \<noteq> None \<and> region \<noteq> Some [] then region else None)) t of
        (Some e, t1) \<Rightarrow> (Inl e, t1)
      | (None, t1) \<Rightarrow>
          (case perform E (HeadBucket bucket) t1 of
             (Some e, t2) \<Rightarrow> (Inl e, t2)
           | (None, t2) \<Rightarrow> (Inr \<lparr>bucket_name = bucket, aws_region = region\<rparr>, t2)))"

subsection \<open>read_csv_filenames\<close>

text \<open>
  The white space of \<open>str.strip()\<close> and \<open>str.isspace()\<close>, as CPython's
  \<open>_PyUnicode_IsWhitespace\<close> lists it: the controls U+0009 to U+000D and U+001C to
  U+001F, the space, U+0085 (next line), U+00A0 (no-break space), U+1680, U+2000 to
  U+200A, U+2028, U+2029, U+202F, U+205F and U+3000.
\<close>

definition py_isspace :: "int \<Rightarrow> bool" where
  "py_isspace c =
     ((0x09 \<le> c \<and> c \<le> 0x0D) \<or> (0x1C \<le> c \<and> c \<le> 0x20) \<or> c = 0x85 \<or> c = 0xA0 \<or>
      c = 0x1680 \<or> (0x2000 \<le> c \<and> c \<le> 0x200A) \<or> c = 0x2028 \<or> c = 0x2029 \<or>
      c = 0x202F \<or> c = 0x205F \<or> c = 0x3000)"

text \<open>\<open>s.strip()\<close>\<close>

definition py_strip :: "str \<Rightarrow> str" where
  "py_strip s = rev (dropWhile py_isspace (rev (dropWhile py_isspace s)))"

text \<open>
  The loop over the rows, with the list \<open>filenames\<close> built so far. \<open>row[filename_column]\<close>
  raises \<open>KeyError\<close> when the row has no such key, and \<open>.strip()\<close> raises
  \<open>AttributeError\<close> on \<open>None\<close>.
\<close>

fun read_rows :: "str \<Rightarrow> row_read list \<Rightarrow> str list \<Rightarrow> exn + str list" where
  "read_rows filename_column [] filenames = Inr filenames"
| "read_rows filename_column (RowFails # rows) filenames = Inl OtherException"
| "read_rows filename_column (Row row # rows) filenames =
     (case row filename_column of
        None \<Rightarrow> Inl OtherException
      | Some None \<Rightarrow> Inl OtherException
      | Some (Some v) \<Rightarrow>
          (let filename = py_strip v in
           if filename \<noteq> [] then read_rows filename_column rows (filenames @ [filename])
           else read_rows filename_column rows filenames))"

text \<open>
  The body of the \<open>try\<close>. \<open>filename_column not in reader.fieldnames\<close> raises \<open>TypeError\<close>
  when \<open>fieldnames\<close> is \<open>None\<close>.
\<close>

definition read_csv_try :: "csv_file \<Rightarrow> str \<Rightarrow> exn + str list" where
  "read_csv_try f filename_column =
     (case f of
        Absent \<Rightarrow> Inl FileNotFoundError
      | Unreadable \<Rightarrow> Inl OtherException
      | Opened HeaderFails rows \<Rightarrow> Inl OtherException
      | Opened NoHeader rows \<Rightarrow> Inl OtherException
      | Opened (Header fieldnames) rows \<Rightarrow>
          (if filename_column \<notin> set fieldnames then Inr []
           else read_rows filename_column rows []))"

text \<open>The handlers: \<open>FileNotFoundError\<close> gives \<open>None\<close>, any other exception \<open>[]\<close>.\<close>

definition read_csv_filenames :: "env \<Rightarrow> str \<Rightarrow> str \<Rightarrow> str list option" where
  "read_csv_filenames E csv_path filename_column =
     (case read_csv_try (open_csv E csv_path) filename_column of
        Inr filenames \<Rightarrow> Some filenames
      | Inl FileNotFoundError \<Rightarrow> None
      | Inl e \<Rightarrow> Some [])"

subsection \<open>main\<close>

text \<open>The parsed command line.\<close>

record args =
  arg_csv_file :: str
  arg_sftp_host :: str
  arg_sftp_user :: str
  arg_sftp_password :: str
  arg_s3_bucket :: "str option"
  arg_s3_prefix :: str
  arg_aws_region :: "str option"
  arg_overwrite_s3 :: bool
  arg_sftp_port :: int
  arg_remote_path :: str
  arg_local_path :: str
  arg_filename_column :: str
  arg_no_delete :: bool

text \<open>The exit code computed from the results (lines 519-531).\<close>

definition exit_code :: "bool \<Rightarrow> results \<Rightarrow> int" where
  "exit_code use_s3 res =
     (let total_failures =
            (if use_s3 then length (sftp_download_failed res) + length (s3_upload_failed res)
             else length (sftp_download_failed res))
      in if total_failures > 0 then 1 else 0)"

definition options_of :: "args \<Rightarrow> options" where
  "options_of a = \<lparr>remote_sftp_path = arg_remote_path a, local_download_path = arg_local_path a,
     s3_prefix = arg_s3_prefix a, delete_from_sftp = (\<not> arg_no_delete a),
     overwrite_s3 = arg_overwrite_s3 a\<rparr>"

text \<open>
  The call of \<open>process_files\<close> and what follows it (lines 504-531); \<open>print_summary\<close> only
  prints.
\<close>

definition main_process ::
  "env \<Rightarrow> args \<Rightarrow> bool \<Rightarrow> SFTPManager \<Rightarrow> S3Manager option \<Rightarrow> str list \<Rightarrow> call list \<Rightarrow>
   (exn + int) \<times> call list" where
  "main_process E a use_s3 sftp_manager s3_manager filenames t =
     (case process_files E sftp_manager s3_manager filenames (options_of a) t of
        (Inl e, t') \<Rightarrow> (Inl e, t')
      | (Inr res, t') \<Rightarrow> (Inr (exit_code use_s3 res), t'))"

text \<open>The \<open>try\<close> block of \<open>main\<close> (lines 486-531), returning the manager as \<open>connect\<close> left it.\<close>

definition main_try ::
  "env \<Rightarrow> args \<Rightarrow> bool \<Rightarrow> bool \<Rightarrow> str list \<Rightarrow> SFTPManager \<Rightarrow> S3Manager option \<Rightarrow> call list \<Rightarrow>
   (exn + int) \<times> SFTPManager \<times> call list" where
  "main_try E a use_s3 get_all_files filenames sftp_manager s3_manager t =
     (case connect E sftp_manager t of
        (False, m, t1) \<Rightarrow> (Inr 1, m, t1)
      | (True, m, t1) \<Rightarrow>
          (if get_all_files then
             (case change_directory E m (arg_remote_path a) t1 of
                (False, t2) \<Rightarrow> (Inr 1, m, t2)
              | (True, t2) \<Rightarrow>
                  (case list_files E m t2 of
                     (listed, t3) \<Rightarrow>
                       (if listed = [] then (Inr 0, m, t3)
                        else (case main_process E a use_s3 m s3_manager listed t3 of
                                (r, t4) \<Rightarrow> (r, m, t4)))))
           else (case main_process E a use_s3 m s3_manager filenames t1 of
                   (r, t4) \<Rightarrow> (r, m, t4))))"

text \<open>
  The S3 manager (lines 477-484): \<open>None\<close> unless \<open>use_s3\<close>, which says that
  \<open>args.s3_bucket\<close> is a str.
\<close>

definition init_s3_manager ::
  "env \<Rightarrow> args \<Rightarrow> bool \<Rightarrow> call list \<Rightarrow> (exn + S3Manager option) \<times> call list" where
  "init_s3_manager E a use_s3 t =
     (if use_s3 then
        (case S3Manager_init E (case arg_s3_bucket a of Some b \<Rightarrow> b | None \<Rightarrow> []) (arg_aws_region a) t of
           (Inl e, t1) \<Rightarrow> (Inl e, t1)
         | (Inr s, t1) \<Rightarrow> (Inr (Some s), t1))
      else (Inr None, t))"

text \<open>
  \<open>main\<close>: its result is the exit code, or the exception that leaves it. \<open>use_s3\<close> is
  \<open>bool(args.s3_bucket)\<close>; the \<open>finally\<close> disconnects on every path through the \<open>try\<close>.
\<close>

definition main :: "env \<Rightarrow> args \<Rightarrow> call list \<Rightarrow> (exn + int) \<times> call list" where
  "main E a t =
     (let use_s3 = (arg_s3_bucket a \<noteq> None \<and> arg_s3_bucket a \<noteq> Some []) in
      case read_csv_filenames E (arg_csv_file a) (arg_filename_column a) of
        Some [] \<Rightarrow> (Inr 1, t)
      | found \<Rightarrow>
          (let get_all_files = (found = None);
               filenames = (case found of None \<Rightarrow> [] | Some fs \<Rightarrow> fs);
               sftp_manager = \<lparr>host = arg_sftp_host a, username = arg_sftp_user a,
                 password = arg_sftp_password a, port = arg_sftp_port a,
                 ssh = False, sftp = False\<rparr>
           in case init_s3_manager E a use_s3 t of
                (Inl e, t1) \<Rightarrow> (Inr 1, t1)
              | (Inr s3_manager, t1) \<Rightarrow>
                  (case main_try E a use_s3 get_all_files filenames sftp_manager s3_manager t1 of
                     (r, m, t2) \<Rightarrow> (r, disconnect E m t2))))"

section \<open>Notions used in the properties\<close>

text \<open>
  The five primary outcome buckets, one after the other; \<open>sftp_delete_failed\<close> is the
  advisory list beside them.
\<close>

definition primary_buckets :: "results \<Rightarrow> str list" where
  "primary_buckets res =
     success res @ sftp_not_found res @ sftp_download_failed res @ s3_upload_failed res @
     s3_already_exists res"

text \<open>The calls that upload and delete a file, and those on the temporary directory.\<close>

fun is_upload :: "call \<Rightarrow> bool" where
  "is_upload (UploadFile p b k) = True"
| "is_upload c = False"

fun is_delete :: "call \<Rightarrow> bool" where
  "is_delete (Remove n) = True"
| "is_delete c = False"

fun is_tmpdir_call :: "call \<Rightarrow> bool" where
  "is_tmpdir_call (Mkdtemp p) = True"
| "is_tmpdir_call (Rmtree d) = True"
| "is_tmpdir_call c = False"

definition tmpdir_calls :: "call list \<Rightarrow> call list" where
  "tmpdir_calls t = filter is_tmpdir_call t"

text \<open>
  For \<open>read_csv_filenames\<close>: the text under a column in one step of the iteration (none when
  the step raised, when the row has no such key and when the value is \<open>None\<close>); the rows of
  a file; a file is readable under a column when it opens, its header has the column, and
  every row gives a text under it; the texts under the column, in the order of the rows.
\<close>

definition cell_text :: "str \<Rightarrow> row_read \<Rightarrow> str option" where
  "cell_text col r =
     (case r of
        RowFails \<Rightarrow> None
      | Row row \<Rightarrow> (case row col of Some (Some v) \<Rightarrow> Some v | _ \<Rightarrow> None))"

definition rows_of :: "csv_file \<Rightarrow> row_read list" where
  "rows_of f = (case f of Opened h rows \<Rightarrow> rows | _ \<Rightarrow> [])"

definition readable :: "csv_file \<Rightarrow> str \<Rightarrow> bool" where
  "readable f col =
     (case f of
        Opened (Header fieldnames) rows \<Rightarrow>
          col \<in> set fieldnames \<and> list_all (\<lambda>r. cell_text col r \<noteq> None) rows
      | _ \<Rightarrow> False)"

definition texts_under :: "str \<Rightarrow> row_read list \<Rightarrow> str list" where
  "texts_under col rows = List.map_filter (cell_text col) rows"

text \<open>
  A text is blank when it has nothing but white space (the empty text is blank). A name
  is a text without the white space at its two ends when it is not empty, begins and
  ends with a character that is not white space, and the text is the name between two
  blank texts. Neither notion is written in terms of the script's \<open>strip\<close>.
\<close>

definition blank :: "str \<Rightarrow> bool" where
  "blank v = list_all py_isspace v"

definition stripped_of :: "str \<Rightarrow> str \<Rightarrow> bool" where
  "stripped_of v n =
     (n \<noteq> [] \<and> \<not> py_isspace (hd n) \<and> \<not> py_isspace (last n) \<and>
      (\<exists>l r. v = l @ n @ r \<and> blank l \<and> blank r))"

subsection \<open>Concrete collaborators\<close>

text \<open>
  A server and a bucket on which five files meet five different fates, and a sixth cannot
  be deleted: \<open>missing.csv\<close> is not on the server, \<open>present.csv\<close> is already in the bucket,
  \<open>broken.csv\<close> cannot be fetched, \<open>big.csv\<close> cannot be uploaded, \<open>locked.csv\<close> cannot be
  removed from the server.
  The CSV file \<open>files.csv\<close> has three rows: \<open>a.csv\<close> between
  spaces, a cell of a space, a no-break space and an em space, and \<open>b.csv\<close> between a
  no-break space and an ideographic space with a line feed.
\<close>

fun mixed_raises :: "call list \<Rightarrow> call \<Rightarrow> exn option" where
  "mixed_raises t (Stat n) = (if n = (ascii ''missing.csv'') then Some FileNotFoundError else None)"
| "mixed_raises t (HeadObject b k) =
     (if k = (ascii ''in/present.csv'') then None else Some (ClientError (ascii ''404'')))"
| "mixed_raises t (Get n p) = (if n = (ascii ''broken.csv'') then Some OtherException else None)"
| "mixed_raises t (UploadFile p b k) = (if k = (ascii ''in/big.csv'') then Some OtherException else None)"
| "mixed_raises t (Remove n) = (if n = (ascii ''locked.csv'') then Some OtherException else None)"
| "mixed_raises t c = None"

definition header_and_rows :: csv_file where
  "header_and_rows =
     Opened (Header [ascii ''id'', ascii ''filename''])
       [Row [(ascii ''id'') \<mapsto> Some (ascii ''1''), (ascii ''filename'') \<mapsto> Some (ascii '' a.csv '')],
        Row [(ascii ''id'') \<mapsto> Some (ascii ''2''), (ascii ''filename'') \<mapsto> Some [0x20, 0xA0, 0x2003]],
        Row [(ascii ''id'') \<mapsto> Some (ascii ''3''),
             (ascii ''filename'') \<mapsto> Some ([0xA0] @ ascii ''b.csv'' @ [0x3000, 0x0A])]]"

definition mixed_env :: env where
  "mixed_env = \<lparr>raises = mixed_raises, mkdtemp_result = (\<lambda>t. (ascii ''/tmp/ftp_download_1'')),
     listdir_result = (\<lambda>t. []), stat_isdir = (\<lambda>t n. Some False),
     pathlib_join = (\<lambda>a b. a @ (ascii ''/'') @ b), pathlib_parent = (\<lambda>a b. a),
     os_path_join = (\<lambda>a b. a @ (ascii ''/'') @ b),
     open_csv = (\<lambda>p. if p = (ascii ''files.csv'') then header_and_rows else Absent)\<rparr>"

definition connected :: SFTPManager where
  "connected = \<lparr>host = ascii ''sftp.example.org'', username = ascii ''user'', password = ascii ''secret'',
     port = 22, ssh = True, sftp = True\<rparr>"

definition the_bucket :: S3Manager where
  "the_bucket = \<lparr>bucket_name = ascii ''bucket'', aws_region = None\<rparr>"

definition default_options :: options where
  "default_options = \<lparr>remote_sftp_path = ascii ''/'', local_download_path = ascii ''./downloads'',
     s3_prefix = ascii ''in/'', delete_from_sftp = True, overwrite_s3 = False\<rparr>"

definition six_files :: "str list" where
  "six_files = [ascii ''a.csv'', ascii ''missing.csv'', ascii ''present.csv'', ascii ''broken.csv'', ascii ''big.csv'', ascii ''locked.csv'']"

text \<open>What the run over these six files gives with the bucket, and the calls it makes.\<close>

definition mixed_result :: results where
  "mixed_result =
     \<lparr>success = [ascii ''a.csv'', ascii ''locked.csv''], sftp_not_found = [ascii ''missing.csv''],
      sftp_download_failed = [ascii ''broken.csv''], s3_upload_failed = [ascii ''big.csv''],
      sftp_delete_failed = [ascii ''locked.csv''], s3_already_exists = [ascii ''present.csv'']\<rparr>"

definition mixed_history :: "call list" where
  "mixed_history =
     [Chdir (ascii ''/''), Mkdtemp (ascii ''ftp_download_''),
      Stat (ascii ''a.csv''), HeadObject (ascii ''bucket'') (ascii ''in/a.csv''), Stat (ascii ''a.csv''),
      Get (ascii ''a.csv'') (ascii ''/tmp/ftp_download_1/a.csv''),
      UploadFile (ascii ''/tmp/ftp_download_1/a.csv'') (ascii ''bucket'') (ascii ''in/a.csv''),
      OsRemove (ascii ''/tmp/ftp_download_1/a.csv''), Remove (ascii ''a.csv''),
      Stat (ascii ''missing.csv''),
      Stat (ascii ''present.csv''), HeadObject (ascii ''bucket'') (ascii ''in/present.csv''),
      Stat (ascii ''broken.csv''), HeadObject (ascii ''bucket'') (ascii ''in/broken.csv''), Stat (ascii ''broken.csv''),
      Get (ascii ''broken.csv'') (ascii ''/tmp/ftp_download_1/broken.csv''),
      Stat (ascii ''big.csv''), HeadObject (ascii ''bucket'') (ascii ''in/big.csv''), Stat (ascii ''big.csv''),
      Get (ascii ''big.csv'') (ascii ''/tmp/ftp_download_1/big.csv''),
      UploadFile (ascii ''/tmp/ftp_download_1/big.csv'') (ascii ''bucket'') (ascii ''in/big.csv''),
      OsRemove (ascii ''/tmp/ftp_download_1/big.csv''),
      Stat (ascii ''locked.csv''), HeadObject (ascii ''bucket'') (ascii ''in/locked.csv''), Stat (ascii ''locked.csv''),
      Get (ascii ''locked.csv'') (ascii ''/tmp/ftp_download_1/locked.csv''),
      UploadFile (ascii ''/tmp/ftp_download_1/locked.csv'') (ascii ''bucket'') (ascii ''in/locked.csv''),
      OsRemove (ascii ''/tmp/ftp_download_1/locked.csv''), Remove (ascii ''locked.csv''),
      Rmtree (ascii ''/tmp/ftp_download_1'')]"

text \<open>The same server without a bucket, two files: one cannot be fetched.\<close>

definition local_result :: results where
  "local_result =
     \<lparr>success = [ascii ''a.csv''], sftp_not_found = [], sftp_download_failed = [ascii ''broken.csv''],
      s3_upload_failed = [], sftp_delete_failed = [], s3_already_exists = []\<rparr>"

definition local_history :: "call list" where
  "local_history =
     [Chdir (ascii ''/''), Mkdir (ascii ''./downloads''),
      Stat (ascii ''a.csv''), Mkdir (ascii ''./downloads''), Stat (ascii ''a.csv''),
      Get (ascii ''a.csv'') (ascii ''./downloads/a.csv''), Remove (ascii ''a.csv''),
      Stat (ascii ''broken.csv''), Mkdir (ascii ''./downloads''), Stat (ascii ''broken.csv''),
      Get (ascii ''broken.csv'') (ascii ''./downloads/broken.csv'')]"

text \<open>A server whose directory cannot be selected.\<close>

fun no_chdir_raises :: "call list \<Rightarrow> call \<Rightarrow> exn option" where
  "no_chdir_raises t (Chdir d) = Some OtherException"
| "no_chdir_raises t c = None"

definition no_chdir_env :: env where
  "no_chdir_env = mixed_env\<lparr>raises := no_chdir_raises\<rparr>"

text \<open>
  A bucket that cannot be reached when the existence check is made: \<open>head_object\<close> raises
  an exception that is not a \<open>ClientError\<close> (botocore's \<open>EndpointConnectionError\<close>, say).
\<close>

fun unreachable_raises :: "call list \<Rightarrow> call \<Rightarrow> exn option" where
  "unreachable_raises t (HeadObject b k) = Some OtherException"
| "unreachable_raises t c = None"

definition unreachable_env :: env where
  "unreachable_env = mixed_env\<lparr>raises := unreachable_raises\<rparr>"

text \<open>Two command lines: to a bucket, and to the local directory.\<close>

definition s3_args :: args where
  "s3_args = \<lparr>arg_csv_file = ascii ''files.csv'', arg_sftp_host = ascii ''sftp.example.org'',
     arg_sftp_user = ascii ''user'', arg_sftp_password = ascii ''secret'', arg_s3_bucket = Some (ascii ''bucket''),
     arg_s3_prefix = ascii ''in/'', arg_aws_region = None, arg_overwrite_s3 = False,
     arg_sftp_port = 22, arg_remote_path = ascii ''/'', arg_local_path = ascii ''./downloads'',
     arg_filename_column = ascii ''filename'', arg_no_delete = False\<rparr>"

definition local_args :: args where
  "local_args = s3_args\<lparr>arg_s3_bucket := None\<rparr>"

section \<open>Properties\<close>


subsection \<open>Calls added by each operation\<close>

lemma perform_filter: "\<not> P c \<Longrightarrow> filter P (snd (perform E c t)) = filter P t"
  by (simp add: perform_def)

lemma sftp_call_filter: "\<not> P c \<Longrightarrow> filter P (snd (sftp_call E m c t)) = filter P t"
  by (simp add: sftp_call_def perform_def)

lemma file_exists_filter:
  "\<not> P (Stat fn) \<Longrightarrow> filter P (snd (file_exists E m fn t)) = filter P t"
  using sftp_call_filter [of P "Stat fn" E m t]
  by (auto simp: file_exists_def split: prod.splits option.splits exn.splits)

lemma delete_file_filter:
  "\<not> P (Remove fn) \<Longrightarrow> filter P (snd (delete_file E m fn t)) = filter P t"
  using sftp_call_filter [of P "Remove fn" E m t]
  by (auto simp: delete_file_def split: prod.splits option.splits)

lemma upload_file_filter:
  "\<not> P (UploadFile p (bucket_name s) k) \<Longrightarrow> filter P (snd (upload_file E s p k t)) = filter P t"
  using perform_filter [of P "UploadFile p (bucket_name s) k" E t]
  by (auto simp: upload_file_def split: prod.splits option.splits)

lemma s3_file_exists_filter:
  "\<not> P (HeadObject (bucket_name s) k) \<Longrightarrow> filter P (snd (s3_file_exists E s k t)) = filter P t"
  using perform_filter [of P "HeadObject (bucket_name s) k" E t]
  by (auto simp: s3_file_exists_def split: prod.splits option.splits exn.splits)

lemma download_file_to_temp_filter:
  assumes "\<not> P (Stat fn)" and "\<And>p. \<not> P (Get fn p)"
  shows "filter P (snd (download_file_to_temp E m fn d t)) = filter P t"
  using assms
  by (auto simp: download_file_to_temp_def Let_def sftp_call_def perform_def
      split: prod.splits option.splits)

lemma download_file_to_local_filter:
  assumes "\<not> P (Stat fn)" and "\<And>p. \<not> P (Get fn p)" and "\<And>p. \<not> P (Mkdir p)"
  shows "filter P (snd (download_file_to_local E m fn d t)) = filter P t"
  using assms
  by (auto simp: download_file_to_local_def Let_def sftp_call_def perform_def
      split: prod.splits option.splits)

lemma download_filter:
  assumes "\<not> P (Stat fn)" and "\<And>p. \<not> P (Get fn p)" and "\<And>p. \<not> P (Mkdir p)"
  shows "filter P (snd (download E m s fn d t)) = filter P t"
  using assms
  by (simp add: download_def download_file_to_temp_filter download_file_to_local_filter)

lemma s3_checks_filter:
  assumes "\<And>b k. \<not> P (HeadObject b k)"
  shows "filter P (snd (s3_checks E s opts fn t)) = filter P t"
  using assms
  by (simp add: s3_checks_def s3_file_exists_filter split: option.splits)

lemma upload_step_filter:
  assumes "\<And>p b k. \<not> P (UploadFile p b k)" and "\<And>p. \<not> P (OsRemove p)"
  shows "filter P (snd (snd (upload_step E s opts fn p (res, t)))) = filter P t"
proof (cases s)
  case None
  then show ?thesis by (simp add: upload_step_def)
next
  case (Some s3)
  have "filter P (snd (upload_file E s3 p (s3_key_of (s3_prefix opts) fn) t)) = filter P t"
    using assms(1) by (simp add: upload_file_filter)
  with Some assms(2) show ?thesis
    by (auto simp: upload_step_def perform_def split: prod.splits bool.splits)
qed

lemma delete_and_mark_filter:
  assumes "\<not> P (Remove fn)"
  shows "filter P (snd (delete_and_mark E m opts fn (res, t))) = filter P t"
  using assms delete_file_filter [of P fn E m t]
  by (auto simp: delete_and_mark_def split: prod.splits bool.splits)

lemma process_file_tmpdir_calls:
  "tmpdir_calls (snd (snd (process_file E m s opts d fn (res, t)))) = tmpdir_calls t"
proof -
  have a: "filter is_tmpdir_call (snd (file_exists E m fn u)) = filter is_tmpdir_call u" for u
    by (simp add: file_exists_filter)
  have b: "filter is_tmpdir_call (snd (s3_checks E s opts fn u)) = filter is_tmpdir_call u" for u
    by (simp add: s3_checks_filter)
  have c: "filter is_tmpdir_call (snd (download E m s fn d u)) = filter is_tmpdir_call u" for u
    by (simp add: download_filter)
  have e: "filter is_tmpdir_call (snd (snd (upload_step E s opts fn p (r, u)))) = filter is_tmpdir_call u" for u p r
    by (simp add: upload_step_filter)
  have f: "filter is_tmpdir_call (snd (delete_and_mark E m opts fn (r, u))) = filter is_tmpdir_call u" for u r
    by (simp add: delete_and_mark_filter)
  show ?thesis
    unfolding tmpdir_calls_def process_file_def
    apply (simp split: prod.splits bool.splits sum.splits option.splits)
    apply (intro conjI allI impI)
    apply (metis a b c e f snd_conv)+
    done
qed


lemma tmpdir_calls_snoc:
  "tmpdir_calls (t @ [c]) = tmpdir_calls t @ (if is_tmpdir_call c then [c] else [])"
  by (simp add: tmpdir_calls_def)

lemma process_loop_tmpdir_calls:
  "tmpdir_calls (snd (snd (process_loop E m s opts d fns (res, t)))) = tmpdir_calls t"
proof (induction fns arbitrary: res t)
  case Nil
  then show ?case by simp
next
  case (Cons fn fns)
  obtain x res1 t1 where step: "process_file E m s opts d fn (res, t) = (x, res1, t1)"
    by (cases "process_file E m s opts d fn (res, t)") auto
  have "tmpdir_calls t1 = tmpdir_calls t"
    using process_file_tmpdir_calls [of E m s opts d fn res t] step by simp
  with step Cons.IH [of res1 t1] show ?case
    by (cases x) simp_all
qed

lemma run_loop_tmpdir_calls:
  "tmpdir_calls (snd (run_loop E m s opts d fns t)) =
     tmpdir_calls t @ (if s \<noteq> None then [Rmtree d] else [])"
proof -
  obtain x res1 t1 where loop: "process_loop E m s opts d fns (empty_results, t) = (x, res1, t1)"
    by (cases "process_loop E m s opts d fns (empty_results, t)") auto
  have "tmpdir_calls t1 = tmpdir_calls t"
    using process_loop_tmpdir_calls [of E m s opts d fns empty_results t] loop by simp
  with loop show ?thesis
    by (cases x) (simp_all add: run_loop_def cleanup_def perform_def tmpdir_calls_snoc)
qed

lemma change_directory_tmpdir_calls:
  "tmpdir_calls (snd (change_directory E m p t)) = tmpdir_calls t"
  using sftp_call_filter [of is_tmpdir_call "Chdir p" E m t]
  by (auto simp: change_directory_def tmpdir_calls_def split: prod.splits option.splits)

text \<open>
  Claim C7. The calls on the temporary directory that a run of \<open>process_files\<close> adds to the
  history are: none without a destination store, and none when the remote directory could
  not be selected; with a destination store, exactly one \<open>mkdtemp\<close>, and, once it returned
  the directory, exactly one \<open>rmtree\<close>, of that directory, after it. Nothing is assumed
  about how the loop over the filenames ends, so this holds when an exception leaves it.
\<close>
theorem working_area_lifecycle:
  "tmpdir_calls (snd (process_files E m s filenames opts t)) =
     tmpdir_calls t @
       (if s = None then []
        else if \<not> fst (change_directory E m (remote_sftp_path opts) t) then []
        else if raises E (snd (change_directory E m (remote_sftp_path opts) t))
                  (Mkdtemp (ascii ''ftp_download_'')) \<noteq> None
        then [Mkdtemp (ascii ''ftp_download_'')]
        else [Mkdtemp (ascii ''ftp_download_''),
              Rmtree (mkdtemp_result E (snd (change_directory E m (remote_sftp_path opts) t)))])"
proof -
  obtain ok t1 where cd: "change_directory E m (remote_sftp_path opts) t = (ok, t1)"
    by (cases "change_directory E m (remote_sftp_path opts) t") auto
  have t1: "tmpdir_calls t1 = tmpdir_calls t"
    using change_directory_tmpdir_calls [of E m "remote_sftp_path opts" t] cd by simp
  show ?thesis
  proof (cases ok)
    case False
    with cd t1 show ?thesis by (simp add: process_files_def)
  next
    case True
    show ?thesis
    proof (cases s)
      case None
      with cd True t1 show ?thesis
        by (simp add: process_files_def perform_def run_loop_tmpdir_calls tmpdir_calls_snoc
            split: option.splits)
    next
      case (Some s3)
      with cd True t1 show ?thesis
        by (simp add: process_files_def perform_def run_loop_tmpdir_calls tmpdir_calls_snoc
            split: option.splits)
    qed
  qed
qed


subsection \<open>Buckets\<close>

lemma upload_step_cases:
  assumes "upload_step E s opts fn p (res, t) = (ok, res', t')"
  shows "if ok then res' = res
         else s \<noteq> None \<and> res' = res\<lparr>s3_upload_failed := s3_upload_failed res @ [fn]\<rparr>"
  using assms
  by (auto simp: upload_step_def split: option.splits prod.splits bool.splits)

lemma delete_and_mark_cases:
  assumes "delete_and_mark E m opts fn (res, t) = (res', t')"
  shows "res' = res\<lparr>success := success res @ [fn]\<rparr> \<or>
         res' = res\<lparr>sftp_delete_failed := sftp_delete_failed res @ [fn],
                    success := success res @ [fn]\<rparr>"
  using assms
  by (auto simp: delete_and_mark_def split: prod.splits bool.splits if_splits)

lemma process_file_primary:
  assumes "process_file E m s opts d fn (res, t) = (None, res', t')"
  shows "mset (primary_buckets res') = add_mset fn (mset (primary_buckets res))"
  using assms
  apply (simp add: process_file_def split: prod.splits bool.splits sum.splits option.splits if_splits)
       apply (auto simp: primary_buckets_def dest!: upload_step_cases delete_and_mark_cases)
  done

lemma process_loop_primary:
  "process_loop E m s opts d fns (res, t) = (None, res', t') \<Longrightarrow>
   mset (primary_buckets res') = mset (primary_buckets res) + mset fns"
proof (induction fns arbitrary: res t)
  case Nil
  then show ?case by simp
next
  case (Cons fn fns)
  then show ?case
    by (auto split: prod.splits option.splits dest!: process_file_primary)
qed

lemma run_loop_primary:
  assumes "run_loop E m s opts d fns t = (Inr res, t')"
  shows "mset (primary_buckets res) = mset fns"
proof -
  obtain x res1 t1 where loop: "process_loop E m s opts d fns (empty_results, t) = (x, res1, t1)"
    by (cases "process_loop E m s opts d fns (empty_results, t)") auto
  with assms have "x = None" and "res1 = res"
    by (auto simp: run_loop_def split: option.splits)
  with loop process_loop_primary [of E m s opts d fns empty_results t res t1]
  show ?thesis by (simp add: primary_buckets_def empty_results_def)
qed

lemma process_files_primary:
  assumes "process_files E m s fns opts t = (Inr res, t')"
    and "fst (change_directory E m (remote_sftp_path opts) t)"
  shows "mset (primary_buckets res) = mset fns"
  using assms
  by (auto simp: process_files_def split: prod.splits bool.splits if_splits option.splits
      dest: run_loop_primary)

lemma process_files_aborted:
  assumes "process_files E m s fns opts t = (Inr res, t')"
    and "\<not> fst (change_directory E m (remote_sftp_path opts) t)"
  shows "res = empty_results"
  using assms
  by (auto simp: process_files_def split: prod.splits bool.splits)

text \<open>
  Whenever \<open>process_files\<close> returns a Run Result for a list of distinct filenames: if the
  remote directory was selected, the five primary buckets together hold exactly the
  input filenames, each once (no filename in two buckets or twice in one, none lost);
  if the directory selection failed, every bucket is empty.
\<close>

lemma returned_buckets_partition_input:
  assumes "distinct filenames"
    and "process_files E m s filenames opts t = (Inr res, t')"
  shows "if fst (change_directory E m (remote_sftp_path opts) t)
         then mset (primary_buckets res) = mset filenames \<and>
              distinct (primary_buckets res) \<and>
              set (primary_buckets res) = set filenames
         else res = empty_results"
proof (cases "fst (change_directory E m (remote_sftp_path opts) t)")
  case True
  have eq: "mset (primary_buckets res) = mset filenames"
    using process_files_primary [OF assms(2) True] .
  have "distinct (primary_buckets res)"
    using eq assms(1) by (metis mset_eq_imp_distinct_iff)
  moreover have "set (primary_buckets res) = set filenames"
    using eq by (rule mset_eq_setD)
  ultimately show ?thesis using True eq by simp
next
  case False
  then show ?thesis using process_files_aborted [OF assms(2)] by simp
qed

subsection \<open>Without a destination store\<close>

lemma process_file_local:
  assumes "process_file E m None opts d fn (res, t) = (x, res', t')"
  shows "x = None \<and> s3_upload_failed res' = s3_upload_failed res \<and>
         s3_already_exists res' = s3_already_exists res"
  using assms
  apply (simp add: process_file_def s3_checks_def split: prod.splits bool.splits option.splits if_splits)
       apply (auto dest!: upload_step_cases delete_and_mark_cases)
  done

lemma process_loop_local:
  "process_loop E m None opts d fns (res, t) = (x, res', t') \<Longrightarrow>
   x = None \<and> s3_upload_failed res' = s3_upload_failed res \<and>
   s3_already_exists res' = s3_already_exists res"
proof (induction fns arbitrary: res t)
  case Nil
  then show ?case by simp
next
  case (Cons fn fns)
  obtain y res1 t1 where step: "process_file E m None opts d fn (res, t) = (y, res1, t1)"
    by (cases "process_file E m None opts d fn (res, t)") auto
  from process_file_local [OF step] have y: "y = None"
    and keep: "s3_upload_failed res1 = s3_upload_failed res"
      "s3_already_exists res1 = s3_already_exists res"
    by simp_all
  from Cons.prems step y
  have "process_loop E m None opts d fns (res1, t1) = (x, res', t')" by simp
  from Cons.IH [OF this] keep show ?case by simp
qed

lemma process_files_local:
  assumes "process_files E m None fns opts t = (Inr res, t')"
  shows "s3_upload_failed res = [] \<and> s3_already_exists res = []"
proof (cases "fst (change_directory E m (remote_sftp_path opts) t)")
  case False
  with process_files_aborted [OF assms] show ?thesis by (simp add: empty_results_def)
next
  case True
  then obtain t1 where cd: "change_directory E m (remote_sftp_path opts) t = (True, t1)"
    by (cases "change_directory E m (remote_sftp_path opts) t") auto
  let ?t2 = "t1 @ [Mkdir (local_download_path opts)]"
  obtain x res1 t3 where loop:
    "process_loop E m None opts (local_download_path opts) fns (empty_results, ?t2) = (x, res1, t3)"
    by (cases "process_loop E m None opts (local_download_path opts) fns (empty_results, ?t2)") auto
  from assms cd loop have "res1 = res"
    by (auto simp: process_files_def run_loop_def perform_def split: option.splits)
  with process_loop_local [OF loop] show ?thesis by (simp add: empty_results_def)
qed

text \<open>
  Without a destination store the loop never raises: the run returns a Run Result unless
  creating the local directory raised.
\<close>

lemma process_files_local_returns:
  "(\<exists>res. fst (process_files E m None fns opts t) = Inr res) =
   (\<not> (fst (change_directory E m (remote_sftp_path opts) t) \<and>
       raises E (snd (change_directory E m (remote_sftp_path opts) t))
         (Mkdir (local_download_path opts)) \<noteq> None))"
proof -
  obtain ok t1 where cd: "change_directory E m (remote_sftp_path opts) t = (ok, t1)"
    by (cases "change_directory E m (remote_sftp_path opts) t") auto
  let ?t2 = "t1 @ [Mkdir (local_download_path opts)]"
  obtain x res1 t3 where loop:
    "process_loop E m None opts (local_download_path opts) fns (empty_results, ?t2) = (x, res1, t3)"
    by (cases "process_loop E m None opts (local_download_path opts) fns (empty_results, ?t2)") auto
  from process_loop_local [OF loop] have "x = None" by simp
  with cd loop show ?thesis
    by (cases ok) (auto simp: process_files_def run_loop_def perform_def split: option.splits)
qed

text \<open>
  Claim C10. Without a destination store, whatever the collaborators do, the buckets
  \<open>s3_upload_failed\<close> and \<open>s3_already_exists\<close> of the Run Result that \<open>process_files\<close>
  returns are empty, so the exit code of the local mode, which counts \<open>sftp_download_failed\<close>
  only, is the one the rule "fetch failed or write failed" gives.
\<close>
theorem local_mode_s3_buckets_empty:
  assumes "process_files E m None filenames opts t = (Inr res, t')"
  shows "s3_upload_failed res = [] \<and> s3_already_exists res = [] \<and>
         exit_code False res =
           (if sftp_download_failed res \<noteq> [] \<or> s3_upload_failed res \<noteq> [] then 1 else 0)"
  using process_files_local [OF assms] by (simp add: exit_code_def)

subsection \<open>Exit status\<close>

text \<open>
  Claim C3. When \<open>process_files\<close> has returned a Run Result, in the mode \<open>main\<close> runs it in
  (\<open>use_s3\<close> exactly when there is an S3 manager), the exit code is 1 if
  \<open>sftp_download_failed\<close> or \<open>s3_upload_failed\<close> is not empty and 0 otherwise: the buckets
  \<open>sftp_not_found\<close>, \<open>s3_already_exists\<close> and \<open>sftp_delete_failed\<close> have no part in it.
\<close>
theorem exit_status_iff_transfer_failures:
  assumes "process_files E m s filenames (options_of a) t = (Inr res, t')"
  shows "main_process E a (s \<noteq> None) m s filenames t =
           (Inr (if sftp_download_failed res \<noteq> [] \<or> s3_upload_failed res \<noteq> [] then 1 else 0), t')"
proof (cases s)
  case None
  with assms process_files_local [of E m filenames "options_of a" t res t'] show ?thesis
    by (simp add: main_process_def exit_code_def)
next
  case (Some s3)
  with assms show ?thesis
    by (simp add: main_process_def exit_code_def)
qed


subsection \<open>One filename\<close>

lemma file_exists_True:
  "file_exists E m fn t = (True, t1) \<Longrightarrow> sftp m \<and> raises E t (Stat fn) = None \<and> t1 = t @ [Stat fn]"
  by (auto simp: file_exists_def sftp_call_def perform_def split: if_splits option.splits exn.splits)

lemma s3_file_exists_Inr:
  "s3_file_exists E s3 k t = (Inr b, t2) \<Longrightarrow> t2 = t @ [HeadObject (bucket_name s3) k]"
  by (auto simp: s3_file_exists_def perform_def split: if_splits option.splits exn.splits)

text \<open>
  Claim C5. With a destination store and overwriting disabled, a filename that exists at
  the source and whose key exists at the destination is recorded in \<open>s3_already_exists\<close>
  and in no other bucket, and the calls made for it are the \<open>stat\<close> at the source and the
  \<open>head_object\<close> at the destination, nothing else: no fetch, no upload, no deletion.
\<close>
theorem already_at_destination_skips_transfer:
  assumes "\<not> overwrite_s3 opts"
    and "file_exists E m filename t = (True, t1)"
    and "s3_file_exists E s3 (s3_key_of (s3_prefix opts) filename) t1 = (Inr True, t2)"
  shows "process_file E m (Some s3) opts download_dir filename (res, t) =
           (None, res\<lparr>s3_already_exists := s3_already_exists res @ [filename]\<rparr>, t2) \<and>
         t2 = t @ [Stat filename, HeadObject (bucket_name s3) (s3_key_of (s3_prefix opts) filename)]"
  using assms file_exists_True [OF assms(2)] s3_file_exists_Inr [OF assms(3)]
  by (simp add: process_file_def s3_checks_def)

text \<open>
  Claim C6. When the download of a filename returns no path, the filename is recorded in
  \<open>sftp_download_failed\<close> and in no other bucket, and the upload calls and the deletion
  calls of the history are those there were before the filename was processed: none was
  made for it.
\<close>
theorem fetch_failure_stops_pipeline:
  assumes "file_exists E m filename t = (True, t1)"
    and "s3_checks E s opts filename t1 = (Inr False, t2)"
    and "download E m s filename download_dir t2 = (None, t3)"
  shows "process_file E m s opts download_dir filename (res, t) =
           (None, res\<lparr>sftp_download_failed := sftp_download_failed res @ [filename]\<rparr>, t3) \<and>
         filter is_upload t3 = filter is_upload t \<and>
         filter is_delete t3 = filter is_delete t"
proof -
  have "filter P t3 = filter P t"
    if "\<And>n. \<not> P (Stat n)" "\<And>b k. \<not> P (HeadObject b k)" "\<And>n p. \<not> P (Get n p)" "\<And>p. \<not> P (Mkdir p)"
    for P
  proof -
    have "filter P t1 = filter P t"
      using file_exists_filter [of P filename E m t] that assms(1) by simp
    moreover have "filter P t2 = filter P t1"
      using s3_checks_filter [of P E s opts filename t1] that assms(2) by simp
    moreover have "filter P t3 = filter P t2"
      using download_filter [of P filename E m s download_dir t2] that assms(3) by simp
    ultimately show ?thesis by simp
  qed
  from this [of is_upload] this [of is_delete] assms show ?thesis
    by (simp add: process_file_def)
qed

text \<open>
  Claim C4. With deletion enabled, when the fetch of a filename succeeded, and its upload
  too if there is a destination store, and the deletion at the source then fails, the
  filename is recorded both in \<open>success\<close> and in \<open>sftp_delete_failed\<close>.
\<close>
theorem delete_failure_keeps_success:
  assumes "delete_from_sftp opts"
    and "file_exists E m filename t = (True, t1)"
    and "s3_checks E s opts filename t1 = (Inr False, t2)"
    and "download E m s filename download_dir t2 = (Some file_path, t3)"
    and "file_path \<noteq> []"
    and "upload_step E s opts filename file_path (res, t3) = (True, res4, t4)"
    and "delete_file E m filename t4 = (False, t5)"
  shows "process_file E m s opts download_dir filename (res, t) =
           (None, res\<lparr>sftp_delete_failed := sftp_delete_failed res @ [filename],
                       success := success res @ [filename]\<rparr>, t5)"
proof -
  from upload_step_cases [OF assms(6)] have "res4 = res" by simp
  with assms show ?thesis
    by (simp add: process_file_def delete_and_mark_def)
qed

text \<open>The only exception that leaves an iteration is one of the existence check at the destination.\<close>

lemma process_file_raises:
  assumes "process_file E m s opts d fn (res, t) = (Some e, res', t')"
  shows "\<exists>s3. s = Some s3 \<and> \<not> overwrite_s3 opts \<and>
           raises E (t @ [Stat fn]) (HeadObject (bucket_name s3) (s3_key_of (s3_prefix opts) fn)) = Some e \<and>
           e \<in> {FileNotFoundError, OtherException}"
proof -
  obtain b t1 where ex: "file_exists E m fn t = (b, t1)"
    by (cases "file_exists E m fn t") auto
  with assms have b by (cases b) (auto simp: process_file_def)
  with ex have "file_exists E m fn t = (True, t1)" by simp
  from file_exists_True [OF this] have t1: "t1 = t @ [Stat fn]" by simp
  obtain c t2 where ck: "s3_checks E s opts fn t1 = (c, t2)"
    by (cases "s3_checks E s opts fn t1") auto
  have c: "c = Inl e"
    using assms ex \<open>b\<close> ck
    by (auto simp: process_file_def split: sum.splits bool.splits prod.splits option.splits if_splits)
  with ck t1 show ?thesis
    by (cases e) (auto simp: s3_checks_def s3_file_exists_def perform_def
        split: option.splits if_splits exn.splits)
qed




subsection \<open>The filename source\<close>

lemma py_strip_blank: "(py_strip v = []) = blank v"
proof -
  let ?w = "dropWhile py_isspace v"
  have "(dropWhile py_isspace (rev ?w) = []) = (?w = [])"
  proof
    assume a: "?w = []"
    show "dropWhile py_isspace (rev ?w) = []" unfolding a by simp
  next
    assume a: "dropWhile py_isspace (rev ?w) = []"
    show "?w = []"
    proof (rule ccontr)
      assume ne: "?w \<noteq> []"
      then have "\<not> py_isspace (hd ?w)" by (rule hd_dropWhile)
      moreover have "hd ?w \<in> set (rev ?w)" using ne by simp
      ultimately show False using a by (auto simp: dropWhile_eq_Nil_conv)
    qed
  qed
  moreover have "(?w = []) = blank v"
    by (simp add: blank_def dropWhile_eq_Nil_conv list_all_iff)
  ultimately show ?thesis by (simp add: py_strip_def)
qed

lemma py_strip_stripped_of:
  assumes "\<not> blank v"
  shows "stripped_of v (py_strip v)"
proof -
  let ?w = "dropWhile py_isspace v"
  let ?n = "py_strip v"
  have ne: "?n \<noteq> []" using assms by (simp add: py_strip_blank)
  have w: "?w \<noteq> []" using assms by (simp add: blank_def dropWhile_eq_Nil_conv list_all_iff)
  have split: "?w = ?n @ rev (takeWhile py_isspace (rev ?w))"
  proof -
    have "?w = rev (takeWhile py_isspace (rev ?w) @ dropWhile py_isspace (rev ?w))"
      by (simp only: takeWhile_dropWhile_id rev_rev_ident)
    also have "\<dots> = rev (dropWhile py_isspace (rev ?w)) @ rev (takeWhile py_isspace (rev ?w))"
      by (simp only: rev_append)
    finally show ?thesis by (simp only: py_strip_def)
  qed
  have "v = takeWhile py_isspace v @ ?w"
    by (simp only: takeWhile_dropWhile_id)
  with split have v: "v = takeWhile py_isspace v @ ?n @ rev (takeWhile py_isspace (rev ?w))"
    by simp
  have l: "blank (takeWhile py_isspace v)"
    by (auto simp: blank_def list_all_iff dest: set_takeWhileD)
  have r: "blank (rev (takeWhile py_isspace (rev ?w)))"
    by (auto simp: blank_def list_all_iff dest: set_takeWhileD)
  have d: "dropWhile py_isspace (rev ?w) \<noteq> []" using ne by (simp add: py_strip_def)
  have "last ?n = hd (dropWhile py_isspace (rev ?w))"
    using d by (simp add: py_strip_def last_rev)
  then have last: "\<not> py_isspace (last ?n)" using d by (simp add: hd_dropWhile)
  have "hd ?n = hd ?w" using split ne by (metis hd_append2)
  then have hd: "\<not> py_isspace (hd ?n)" using w by (simp add: hd_dropWhile)
  from ne hd last v l r show ?thesis
    unfolding stripped_of_def by blast
qed

text \<open>A text has one name without the white space at its two ends, the one \<open>strip\<close> gives.\<close>

lemma stripped_of_unique:
  assumes "stripped_of v n"
  shows "py_strip v = n"
proof -
  from assms obtain l r where v: "v = l @ n @ r" and l: "blank l" and r: "blank r"
    and ne: "n \<noteq> []" and h: "\<not> py_isspace (hd n)" and e: "\<not> py_isspace (last n)"
    unfolding stripped_of_def by blast
  have "\<And>x. x \<in> set l \<Longrightarrow> py_isspace x"
    using l by (simp add: blank_def list_all_iff)
  then have "dropWhile py_isspace (l @ n @ r) = dropWhile py_isspace (n @ r)"
    by (rule dropWhile_append2)
  then have "dropWhile py_isspace v = dropWhile py_isspace (n @ r)"
    using v by simp
  also have "\<dots> = n @ r" using ne h by (cases n) auto
  finally have w: "dropWhile py_isspace v = n @ r" .
  have "\<And>x. x \<in> set (rev r) \<Longrightarrow> py_isspace x"
    using r by (simp add: blank_def list_all_iff)
  then have "dropWhile py_isspace (rev r @ rev n) = dropWhile py_isspace (rev n)"
    by (rule dropWhile_append2)
  then have "dropWhile py_isspace (rev (n @ r)) = dropWhile py_isspace (rev n)"
    by (simp only: rev_append)
  also have "\<dots> = rev n"
  proof -
    have "rev n \<noteq> []" using ne by simp
    then obtain x xs where c: "rev n = x # xs" by (cases "rev n") auto
    have "hd (rev n) = last n" using ne by (simp add: hd_rev)
    with c e have "\<not> py_isspace x" by simp
    then show ?thesis unfolding c by simp
  qed
  finally show ?thesis using w by (simp add: py_strip_def)
qed

text \<open>
  \<open>strip\<close> on white space of every kind; U+200B (zero width space), U+180E and U+001B are
  not white space and stay.
\<close>

lemma py_strip_examples:
  "py_strip ([0x09, 0x0D, 0x1C, 0x1F, 0x20, 0x85, 0xA0, 0x1680, 0x2000] @ ascii ''a b.csv'' @
             [0x200A, 0x2028, 0x2029, 0x202F, 0x205F, 0x3000, 0x0A]) = ascii ''a b.csv''"
  "py_strip [0xA0, 0x2003, 0x0B, 0x0C, 0x1D, 0x1E] = []"
  "py_strip [0x200B, 0x20, 0x180E] = [0x200B, 0x20, 0x180E]"
  "py_strip [0x20, 0x1B, 0x20] = [0x1B]"
  by (simp_all add: py_strip_def py_isspace_def ascii_def)

lemma names_stripped:
  "list_all2 stripped_of (filter (\<lambda>v. \<not> blank v) vs)
     (filter (\<lambda>n. n \<noteq> []) (map py_strip vs))"
  by (induction vs) (simp_all add: py_strip_blank py_strip_stripped_of)

lemma read_rows_readable:
  "list_all (\<lambda>r. cell_text col r \<noteq> None) rows \<Longrightarrow>
   read_rows col rows acc =
     Inr (acc @ filter (\<lambda>n. n \<noteq> []) (map py_strip (texts_under col rows)))"
proof (induction col rows acc rule: read_rows.induct)
  case (1 col acc)
  then show ?case by (simp add: texts_under_def List.map_filter_simps)
next
  case (2 col rows acc)
  then show ?case by (simp add: cell_text_def)
next
  case (3 col row rows acc)
  then show ?case
    by (auto simp: cell_text_def texts_under_def List.map_filter_simps Let_def
        split: option.splits)
qed

lemma read_rows_unreadable:
  "\<not> list_all (\<lambda>r. cell_text col r \<noteq> None) rows \<Longrightarrow>
   read_rows col rows acc = Inl OtherException"
proof (induction col rows acc rule: read_rows.induct)
  case (1 col acc)
  then show ?case by simp
next
  case (2 col rows acc)
  then show ?case by simp
next
  case (3 col row rows acc)
  then show ?case
    by (auto simp: cell_text_def Let_def split: option.splits)
qed

lemma read_csv_filenames_cases:
  "read_csv_filenames E csv_path col =
     (if open_csv E csv_path = Absent then None
      else if readable (open_csv E csv_path) col
      then Some (filter (\<lambda>n. n \<noteq> [])
                   (map py_strip (texts_under col (rows_of (open_csv E csv_path)))))
      else Some [])"
proof (cases "open_csv E csv_path")
  case Absent
  then show ?thesis by (simp add: read_csv_filenames_def read_csv_try_def)
next
  case Unreadable
  then show ?thesis by (simp add: read_csv_filenames_def read_csv_try_def readable_def)
next
  case (Opened h rows)
  show ?thesis
  proof (cases h)
    case HeaderFails
    with Opened show ?thesis by (simp add: read_csv_filenames_def read_csv_try_def readable_def)
  next
    case NoHeader
    with Opened show ?thesis by (simp add: read_csv_filenames_def read_csv_try_def readable_def)
  next
    case (Header fs)
    show ?thesis
    proof (cases "list_all (\<lambda>r. cell_text col r \<noteq> None) rows")
      case True
      with Opened Header read_rows_readable [OF True, of "[]"] show ?thesis
        by (auto simp: read_csv_filenames_def read_csv_try_def readable_def rows_of_def)
    next
      case False
      with Opened Header read_rows_unreadable [OF False, of "[]"] show ?thesis
        by (auto simp: read_csv_filenames_def read_csv_try_def readable_def rows_of_def)
    qed
  qed
qed

text \<open>
  Claim C9. \<open>read_csv_filenames\<close> returns \<open>None\<close> exactly when the file is absent. For a
  file that is there and readable under the column, it returns one name for every text
  under the column that is not blank, in the order of the rows, each name being its text
  without the white space at its two ends (so no name is empty or blank). For a file that
  is there and not readable under the column (it does not open, its header fails, is
  missing or lacks the column, or a row cannot be read), it returns the empty list.
\<close>

theorem read_csv_filenames_three_results:
  "(if open_csv E csv_path = Absent then read_csv_filenames E csv_path col = None
    else if readable (open_csv E csv_path) col
    then (\<exists>names. read_csv_filenames E csv_path col = Some names \<and>
            list_all2 stripped_of
              (filter (\<lambda>v. \<not> blank v) (texts_under col (rows_of (open_csv E csv_path))))
              names)
    else read_csv_filenames E csv_path col = Some []) \<and>
   (read_csv_filenames E csv_path col = None) = (open_csv E csv_path = Absent)"
  using names_stripped [of "texts_under col (rows_of (open_csv E csv_path))"]
  by (simp add: read_csv_filenames_cases)

subsection \<open>The properties on concrete collaborators\<close>


lemma mixed_run:
  "process_files mixed_env connected (Some the_bucket) six_files default_options [] =
     (Inr mixed_result, mixed_history)"
  by code_simp

lemma local_run:
  "process_files mixed_env connected None [ascii ''a.csv'', ascii ''broken.csv''] default_options [] =
     (Inr local_result, local_history)"
  by code_simp

lemma returned_buckets_partition_mixed_run:
  "distinct six_files \<and>
   process_files mixed_env connected (Some the_bucket) six_files default_options [] =
     (Inr mixed_result, mixed_history) \<and>
   fst (change_directory mixed_env connected (remote_sftp_path default_options) []) \<and>
   mset (primary_buckets mixed_result) = mset six_files \<and>
   distinct (primary_buckets mixed_result) \<and>
   set (primary_buckets mixed_result) = set six_files"
proof -
  have d: "distinct six_files" by code_simp
  have cd: "fst (change_directory mixed_env connected (remote_sftp_path default_options) [])"
    by code_simp
  from returned_buckets_partition_input [OF d mixed_run] cd d mixed_run
  show ?thesis by simp
qed

theorem local_mode_s3_buckets_empty_witness:
  "process_files mixed_env connected None [ascii ''a.csv'', ascii ''broken.csv''] default_options [] =
     (Inr local_result, local_history) \<and>
   s3_upload_failed local_result = [] \<and> s3_already_exists local_result = [] \<and>
   exit_code False local_result = 1"
proof -
  have "sftp_download_failed local_result \<noteq> []" by (simp add: local_result_def)
  with local_mode_s3_buckets_empty [OF local_run] local_run show ?thesis by simp
qed

theorem exit_status_iff_transfer_failures_witness:
  "process_files mixed_env connected (Some the_bucket) six_files (options_of s3_args) [] =
     (Inr mixed_result, mixed_history) \<and>
   main_process mixed_env s3_args True connected (Some the_bucket) six_files [] =
     (Inr 1, mixed_history)"
proof -
  have o: "options_of s3_args = default_options" by code_simp
  have run: "process_files mixed_env connected (Some the_bucket) six_files (options_of s3_args) [] =
     (Inr mixed_result, mixed_history)"
    using mixed_run o by simp
  have "sftp_download_failed mixed_result \<noteq> []" by (simp add: mixed_result_def)
  with exit_status_iff_transfer_failures [OF run] run show ?thesis by simp
qed

theorem already_at_destination_skips_transfer_witness:
  "\<not> overwrite_s3 default_options \<and>
   file_exists mixed_env connected (ascii ''present.csv'') [] = (True, [Stat (ascii ''present.csv'')]) \<and>
   s3_file_exists mixed_env the_bucket (s3_key_of (s3_prefix default_options) (ascii ''present.csv''))
     [Stat (ascii ''present.csv'')] =
     (Inr True, [Stat (ascii ''present.csv''), HeadObject (ascii ''bucket'') (ascii ''in/present.csv'')]) \<and>
   process_file mixed_env connected (Some the_bucket) default_options (ascii ''/tmp/ftp_download_1'')
     (ascii ''present.csv'') (empty_results, []) =
     (None, empty_results\<lparr>s3_already_exists := [ascii ''present.csv'']\<rparr>,
      [Stat (ascii ''present.csv''), HeadObject (ascii ''bucket'') (ascii ''in/present.csv'')])"
proof -
  have a: "\<not> overwrite_s3 default_options" by code_simp
  have b: "file_exists mixed_env connected (ascii ''present.csv'') [] = (True, [Stat (ascii ''present.csv'')])"
    by code_simp
  have c: "s3_file_exists mixed_env the_bucket (s3_key_of (s3_prefix default_options) (ascii ''present.csv''))
     [Stat (ascii ''present.csv'')] =
     (Inr True, [Stat (ascii ''present.csv''), HeadObject (ascii ''bucket'') (ascii ''in/present.csv'')])"
    by code_simp
  from already_at_destination_skips_transfer [OF a b c, where res = empty_results and download_dir = "(ascii ''/tmp/ftp_download_1'')"]
    a b c
  show ?thesis by (simp add: empty_results_def)
qed

theorem fetch_failure_stops_pipeline_witness:
  "file_exists mixed_env connected (ascii ''broken.csv'') [] = (True, [Stat (ascii ''broken.csv'')]) \<and>
   s3_checks mixed_env (Some the_bucket) default_options (ascii ''broken.csv'') [Stat (ascii ''broken.csv'')] =
     (Inr False, [Stat (ascii ''broken.csv''), HeadObject (ascii ''bucket'') (ascii ''in/broken.csv'')]) \<and>
   download mixed_env connected (Some the_bucket) (ascii ''broken.csv'') (ascii ''/tmp/ftp_download_1'')
     [Stat (ascii ''broken.csv''), HeadObject (ascii ''bucket'') (ascii ''in/broken.csv'')] =
     (None, [Stat (ascii ''broken.csv''), HeadObject (ascii ''bucket'') (ascii ''in/broken.csv''), Stat (ascii ''broken.csv''),
             Get (ascii ''broken.csv'') (ascii ''/tmp/ftp_download_1/broken.csv'')]) \<and>
   process_file mixed_env connected (Some the_bucket) default_options (ascii ''/tmp/ftp_download_1'')
     (ascii ''broken.csv'') (empty_results, []) =
     (None, empty_results\<lparr>sftp_download_failed := [ascii ''broken.csv'']\<rparr>,
      [Stat (ascii ''broken.csv''), HeadObject (ascii ''bucket'') (ascii ''in/broken.csv''), Stat (ascii ''broken.csv''),
       Get (ascii ''broken.csv'') (ascii ''/tmp/ftp_download_1/broken.csv'')])"
proof -
  have a: "file_exists mixed_env connected (ascii ''broken.csv'') [] = (True, [Stat (ascii ''broken.csv'')])"
    by code_simp
  have b: "s3_checks mixed_env (Some the_bucket) default_options (ascii ''broken.csv'') [Stat (ascii ''broken.csv'')] =
     (Inr False, [Stat (ascii ''broken.csv''), HeadObject (ascii ''bucket'') (ascii ''in/broken.csv'')])"
    by code_simp
  have c: "download mixed_env connected (Some the_bucket) (ascii ''broken.csv'') (ascii ''/tmp/ftp_download_1'')
     [Stat (ascii ''broken.csv''), HeadObject (ascii ''bucket'') (ascii ''in/broken.csv'')] =
     (None, [Stat (ascii ''broken.csv''), HeadObject (ascii ''bucket'') (ascii ''in/broken.csv''), Stat (ascii ''broken.csv''),
             Get (ascii ''broken.csv'') (ascii ''/tmp/ftp_download_1/broken.csv'')])"
    by code_simp
  from fetch_failure_stops_pipeline [OF a b c, where res = empty_results] a b c
  show ?thesis by (simp add: empty_results_def)
qed

theorem delete_failure_keeps_success_witness:
  "delete_from_sftp default_options \<and>
   file_exists mixed_env connected (ascii ''locked.csv'') [] = (True, [Stat (ascii ''locked.csv'')]) \<and>
   s3_checks mixed_env (Some the_bucket) default_options (ascii ''locked.csv'') [Stat (ascii ''locked.csv'')] =
     (Inr False, [Stat (ascii ''locked.csv''), HeadObject (ascii ''bucket'') (ascii ''in/locked.csv'')]) \<and>
   download mixed_env connected (Some the_bucket) (ascii ''locked.csv'') (ascii ''/tmp/ftp_download_1'')
     [Stat (ascii ''locked.csv''), HeadObject (ascii ''bucket'') (ascii ''in/locked.csv'')] =
     (Some (ascii ''/tmp/ftp_download_1/locked.csv''),
      [Stat (ascii ''locked.csv''), HeadObject (ascii ''bucket'') (ascii ''in/locked.csv''), Stat (ascii ''locked.csv''),
       Get (ascii ''locked.csv'') (ascii ''/tmp/ftp_download_1/locked.csv'')]) \<and>
   upload_step mixed_env (Some the_bucket) default_options (ascii ''locked.csv'')
     (ascii ''/tmp/ftp_download_1/locked.csv'')
     (empty_results,
      [Stat (ascii ''locked.csv''), HeadObject (ascii ''bucket'') (ascii ''in/locked.csv''), Stat (ascii ''locked.csv''),
       Get (ascii ''locked.csv'') (ascii ''/tmp/ftp_download_1/locked.csv'')]) =
     (True, empty_results,
      [Stat (ascii ''locked.csv''), HeadObject (ascii ''bucket'') (ascii ''in/locked.csv''), Stat (ascii ''locked.csv''),
       Get (ascii ''locked.csv'') (ascii ''/tmp/ftp_download_1/locked.csv''),
       UploadFile (ascii ''/tmp/ftp_download_1/locked.csv'') (ascii ''bucket'') (ascii ''in/locked.csv''),
       OsRemove (ascii ''/tmp/ftp_download_1/locked.csv'')]) \<and>
   delete_file mixed_env connected (ascii ''locked.csv'')
     [Stat (ascii ''locked.csv''), HeadObject (ascii ''bucket'') (ascii ''in/locked.csv''), Stat (ascii ''locked.csv''),
      Get (ascii ''locked.csv'') (ascii ''/tmp/ftp_download_1/locked.csv''),
      UploadFile (ascii ''/tmp/ftp_download_1/locked.csv'') (ascii ''bucket'') (ascii ''in/locked.csv''),
      OsRemove (ascii ''/tmp/ftp_download_1/locked.csv'')] =
     (False,
      [Stat (ascii ''locked.csv''), HeadObject (ascii ''bucket'') (ascii ''in/locked.csv''), Stat (ascii ''locked.csv''),
       Get (ascii ''locked.csv'') (ascii ''/tmp/ftp_download_1/locked.csv''),
       UploadFile (ascii ''/tmp/ftp_download_1/locked.csv'') (ascii ''bucket'') (ascii ''in/locked.csv''),
       OsRemove (ascii ''/tmp/ftp_download_1/locked.csv''), Remove (ascii ''locked.csv'')]) \<and>
   process_file mixed_env connected (Some the_bucket) default_options (ascii ''/tmp/ftp_download_1'')
     (ascii ''locked.csv'') (empty_results, []) =
     (None, empty_results\<lparr>sftp_delete_failed := [ascii ''locked.csv''], success := [ascii ''locked.csv'']\<rparr>,
      [Stat (ascii ''locked.csv''), HeadObject (ascii ''bucket'') (ascii ''in/locked.csv''), Stat (ascii ''locked.csv''),
       Get (ascii ''locked.csv'') (ascii ''/tmp/ftp_download_1/locked.csv''),
       UploadFile (ascii ''/tmp/ftp_download_1/locked.csv'') (ascii ''bucket'') (ascii ''in/locked.csv''),
       OsRemove (ascii ''/tmp/ftp_download_1/locked.csv''), Remove (ascii ''locked.csv'')])"
proof -
  have a: "delete_from_sftp default_options" by code_simp
  have b: "file_exists mixed_env connected (ascii ''locked.csv'') [] = (True, [Stat (ascii ''locked.csv'')])"
    by code_simp
  have c: "s3_checks mixed_env (Some the_bucket) default_options (ascii ''locked.csv'') [Stat (ascii ''locked.csv'')] =
     (Inr False, [Stat (ascii ''locked.csv''), HeadObject (ascii ''bucket'') (ascii ''in/locked.csv'')])"
    by code_simp
  have d: "download mixed_env connected (Some the_bucket) (ascii ''locked.csv'') (ascii ''/tmp/ftp_download_1'')
     [Stat (ascii ''locked.csv''), HeadObject (ascii ''bucket'') (ascii ''in/locked.csv'')] =
     (Some (ascii ''/tmp/ftp_download_1/locked.csv''),
      [Stat (ascii ''locked.csv''), HeadObject (ascii ''bucket'') (ascii ''in/locked.csv''), Stat (ascii ''locked.csv''),
       Get (ascii ''locked.csv'') (ascii ''/tmp/ftp_download_1/locked.csv'')])"
    by code_simp
  have e: "ascii ''/tmp/ftp_download_1/locked.csv'' \<noteq> []" by (simp add: ascii_def)
  have f: "upload_step mixed_env (Some the_bucket) default_options (ascii ''locked.csv'')
     (ascii ''/tmp/ftp_download_1/locked.csv'')
     (empty_results,
      [Stat (ascii ''locked.csv''), HeadObject (ascii ''bucket'') (ascii ''in/locked.csv''), Stat (ascii ''locked.csv''),
       Get (ascii ''locked.csv'') (ascii ''/tmp/ftp_download_1/locked.csv'')]) =
     (True, empty_results,
      [Stat (ascii ''locked.csv''), HeadObject (ascii ''bucket'') (ascii ''in/locked.csv''), Stat (ascii ''locked.csv''),
       Get (ascii ''locked.csv'') (ascii ''/tmp/ftp_download_1/locked.csv''),
       UploadFile (ascii ''/tmp/ftp_download_1/locked.csv'') (ascii ''bucket'') (ascii ''in/locked.csv''),
       OsRemove (ascii ''/tmp/ftp_download_1/locked.csv'')])"
    by code_simp
  have g: "delete_file mixed_env connected (ascii ''locked.csv'')
     [Stat (ascii ''locked.csv''), HeadObject (ascii ''bucket'') (ascii ''in/locked.csv''), Stat (ascii ''locked.csv''),
      Get (ascii ''locked.csv'') (ascii ''/tmp/ftp_download_1/locked.csv''),
      UploadFile (ascii ''/tmp/ftp_download_1/locked.csv'') (ascii ''bucket'') (ascii ''in/locked.csv''),
      OsRemove (ascii ''/tmp/ftp_download_1/locked.csv'')] =
     (False,
      [Stat (ascii ''locked.csv''), HeadObject (ascii ''bucket'') (ascii ''in/locked.csv''), Stat (ascii ''locked.csv''),
       Get (ascii ''locked.csv'') (ascii ''/tmp/ftp_download_1/locked.csv''),
       UploadFile (ascii ''/tmp/ftp_download_1/locked.csv'') (ascii ''bucket'') (ascii ''in/locked.csv''),
       OsRemove (ascii ''/tmp/ftp_download_1/locked.csv''), Remove (ascii ''locked.csv'')])"
    by code_simp
  from delete_failure_keeps_success [OF a b c d e f g] a b c d f g
  show ?thesis by (simp add: empty_results_def)
qed




subsection \<open>The run as a whole\<close>

lemma init_s3_manager_mode:
  "init_s3_manager E a use_s3 t = (Inr s, t1) \<Longrightarrow> (s \<noteq> None) = use_s3"
  by (auto simp: init_s3_manager_def split: if_splits prod.splits sum.splits)

text \<open>
  A run whose directory selection fails has an empty Run Result, and \<open>main\<close> computes its
  exit code from it as from any other: 0.
\<close>

lemma aborted_run_exit_code:
  assumes "\<not> fst (change_directory E m (arg_remote_path a) t)"
  shows "main_process E a use_s3 m s fns t =
           (Inr 0, snd (change_directory E m (arg_remote_path a) t))"
  using assms
  by (auto simp: main_process_def process_files_def options_of_def exit_code_def
      empty_results_def split: prod.splits bool.splits)

text \<open>An exception leaves the loop only with a destination store and overwriting disabled.\<close>

lemma process_loop_raises:
  "process_loop E m s opts d fns (res, t) = (Some e, res', t') \<Longrightarrow>
   s \<noteq> None \<and> \<not> overwrite_s3 opts \<and> e \<in> {FileNotFoundError, OtherException}"
proof (induction fns arbitrary: res t)
  case Nil
  then show ?case by simp
next
  case (Cons fn fns)
  obtain y res1 t1 where step: "process_file E m s opts d fn (res, t) = (y, res1, t1)"
    by (cases "process_file E m s opts d fn (res, t)") auto
  show ?case
  proof (cases y)
    case None
    with Cons.prems step have "process_loop E m s opts d fns (res1, t1) = (Some e, res', t')"
      by simp
    from Cons.IH [OF this] show ?thesis .
  next
    case (Some e')
    with Cons.prems step have "e' = e" by simp
    with Some step process_file_raises [of E m s opts d fn res t e res1 t1] show ?thesis
      by auto
  qed
qed

text \<open>
  Claim C2. With a list of filenames read from the CSV file and a server on which the
  remote directory cannot be selected, \<open>main\<close> makes no call for any filename and returns
  the exit code 0.
\<close>

theorem chdir_failure_exits_zero:
  "main no_chdir_env s3_args [] =
     (Inr 0, [Boto3Client None, HeadBucket (ascii ''bucket''),
              SSHConnect (ascii ''sftp.example.org'') 22 (ascii ''user'') (ascii ''secret''), OpenSftp,
              Chdir (ascii ''/''), SftpClose, SSHClose])"
  by code_simp

text \<open>
  On the path of \<open>main\<close> that lists the remote directory (no CSV file), the same failure
  gives the exit code 1.
\<close>

lemma chdir_failure_when_listing_exits_one:
  "main no_chdir_env (s3_args\<lparr>arg_csv_file := ascii ''nowhere.csv''\<rparr>) [] =
     (Inr 1, [Boto3Client None, HeadBucket (ascii ''bucket''),
              SSHConnect (ascii ''sftp.example.org'') 22 (ascii ''user'') (ascii ''secret''), OpenSftp,
              Chdir (ascii ''/''), SftpClose, SSHClose])"
  by code_simp

text \<open>
  Claim C8. With a bucket whose \<open>head_object\<close> raises an exception that is not a
  \<open>ClientError\<close>, the exception leaves the loop at the first filename found at the source,
  and leaves \<open>process_files\<close> after the cleanup: no Run Result is returned, and the second
  filename is never looked at.
\<close>

theorem existence_check_fault_escapes:
  "process_files unreachable_env connected (Some the_bucket) [ascii ''a.csv'', ascii ''b.csv'']
     default_options [] =
     (Inl OtherException,
      [Chdir (ascii ''/''), Mkdtemp (ascii ''ftp_download_''), Stat (ascii ''a.csv''),
       HeadObject (ascii ''bucket'') (ascii ''in/a.csv''), Rmtree (ascii ''/tmp/ftp_download_1'')])"
  by code_simp

lemma existence_check_fault_leaves_main:
  "main unreachable_env s3_args [] =
     (Inl OtherException,
      [Boto3Client None, HeadBucket (ascii ''bucket''),
       SSHConnect (ascii ''sftp.example.org'') 22 (ascii ''user'') (ascii ''secret''), OpenSftp,
       Chdir (ascii ''/''), Mkdtemp (ascii ''ftp_download_''), Stat (ascii ''a.csv''),
       HeadObject (ascii ''bucket'') (ascii ''in/a.csv''), Rmtree (ascii ''/tmp/ftp_download_1''),
       SftpClose, SSHClose])"
  by code_simp

text \<open>
  Claim C1. With three distinct filenames, the remote directory selected, and a bucket
  whose \<open>head_object\<close> raises an exception that is not a \<open>ClientError\<close>, the loop is left
  at the first filename with every bucket still empty, and \<open>process_files\<close> raises: there
  is no Run Result, and none of the three filenames is in any bucket.
\<close>

theorem partition_lost_when_fault_escapes:
  "distinct [ascii ''a.csv'', ascii ''b.csv'', ascii ''c.csv''] \<and>
   change_directory unreachable_env connected (remote_sftp_path default_options) [] =
     (True, [Chdir (ascii ''/'')]) \<and>
   process_loop unreachable_env connected (Some the_bucket) default_options
     (ascii ''/tmp/ftp_download_1'') [ascii ''a.csv'', ascii ''b.csv'', ascii ''c.csv'']
     (empty_results, [Chdir (ascii ''/''), Mkdtemp (ascii ''ftp_download_'')]) =
     (Some OtherException, empty_results,
      [Chdir (ascii ''/''), Mkdtemp (ascii ''ftp_download_''), Stat (ascii ''a.csv''),
       HeadObject (ascii ''bucket'') (ascii ''in/a.csv'')]) \<and>
   process_files unreachable_env connected (Some the_bucket)
     [ascii ''a.csv'', ascii ''b.csv'', ascii ''c.csv''] default_options [] =
     (Inl OtherException,
      [Chdir (ascii ''/''), Mkdtemp (ascii ''ftp_download_''), Stat (ascii ''a.csv''),
       HeadObject (ascii ''bucket'') (ascii ''in/a.csv''),
       Rmtree (ascii ''/tmp/ftp_download_1'')])"
  by code_simp

text \<open>
  The two calls between the directory selection and the \<open>try\<close> (\<open>mkdtemp\<close> with a
  destination store, the creation of the local directory without) are not guarded: when
  one raises, \<open>process_files\<close> raises, and there is no Run Result either.
\<close>

lemma setup_fault_leaves_process_files:
  assumes "change_directory E m (remote_sftp_path opts) t = (True, t1)"
    and "raises E t1 (if s \<noteq> None then Mkdtemp (ascii ''ftp_download_'')
                      else Mkdir (local_download_path opts)) = Some e"
  shows "process_files E m s filenames opts t =
           (Inl e, t1 @ [if s \<noteq> None then Mkdtemp (ascii ''ftp_download_'')
                         else Mkdir (local_download_path opts)])"
  using assms by (auto simp: process_files_def perform_def)

text \<open>A run with a missing file, a file already in the bucket and a failed deletion exits with 0.\<close>

lemma advisory_outcomes_exit_zero:
  "main_process mixed_env s3_args True connected (Some the_bucket)
     [ascii ''missing.csv'', ascii ''present.csv'', ascii ''locked.csv''] [] =
     (Inr 0,
      [Chdir (ascii ''/''), Mkdtemp (ascii ''ftp_download_''), Stat (ascii ''missing.csv''),
       Stat (ascii ''present.csv''), HeadObject (ascii ''bucket'') (ascii ''in/present.csv''),
       Stat (ascii ''locked.csv''), HeadObject (ascii ''bucket'') (ascii ''in/locked.csv''), Stat (ascii ''locked.csv''),
       Get (ascii ''locked.csv'') (ascii ''/tmp/ftp_download_1/locked.csv''),
       UploadFile (ascii ''/tmp/ftp_download_1/locked.csv'') (ascii ''bucket'') (ascii ''in/locked.csv''),
       OsRemove (ascii ''/tmp/ftp_download_1/locked.csv''), Remove (ascii ''locked.csv''),
       Rmtree (ascii ''/tmp/ftp_download_1'')])"
  by code_simp




text \<open>
  With a destination store the removal of the temporary directory is the last call of the
  \<open>try ... finally\<close> around the loop.
\<close>

lemma rmtree_is_last_call:
  "s \<noteq> None \<Longrightarrow> last (snd (run_loop E m s opts d fns t)) = Rmtree d"
  by (cases "process_loop E m s opts d fns (empty_results, t)" rule: prod_cases3)
    (auto simp: run_loop_def cleanup_def perform_def split: option.splits)

text \<open>
  The exit code of \<open>main\<close> itself, on the path with filenames from the CSV file: once the
  S3 manager (if any) is made, the connection stands and \<open>process_files\<close> has returned a
  Run Result, it is 1 if \<open>sftp_download_failed\<close> or \<open>s3_upload_failed\<close> is not empty, and 0
  otherwise.
\<close>

lemma main_exit_code_of_completed_run:
  assumes csv: "read_csv_filenames E (arg_csv_file a) (arg_filename_column a) = Some fns"
    and ne: "fns \<noteq> []"
    and s3: "init_s3_manager E a (arg_s3_bucket a \<noteq> None \<and> arg_s3_bucket a \<noteq> Some []) t = (Inr s, t1)"
    and conn: "connect E \<lparr>host = arg_sftp_host a, username = arg_sftp_user a,
                 password = arg_sftp_password a, port = arg_sftp_port a,
                 ssh = False, sftp = False\<rparr> t1 = (True, m, t2)"
    and run: "process_files E m s fns (options_of a) t2 = (Inr res, t3)"
  shows "main E a t =
           (Inr (if sftp_download_failed res \<noteq> [] \<or> s3_upload_failed res \<noteq> [] then 1 else 0),
            disconnect E m t3)"
proof -
  have mode: "(s \<noteq> None) = (arg_s3_bucket a \<noteq> None \<and> arg_s3_bucket a \<noteq> Some [])"
    using init_s3_manager_mode [OF s3] .
  have code: "exit_code (s \<noteq> None) res =
      (if sftp_download_failed res \<noteq> [] \<or> s3_upload_failed res \<noteq> [] then 1 else 0)"
  proof (cases s)
    case None
    with run process_files_local [of E m fns "options_of a" t2 res t3] show ?thesis
      by (simp add: exit_code_def)
  next
    case (Some s3)
    then show ?thesis by (simp add: exit_code_def)
  qed
  obtain f fs where fns: "fns = f # fs" using ne by (cases fns) auto
  have "main_try E a (s \<noteq> None) False fns
          \<lparr>host = arg_sftp_host a, username = arg_sftp_user a,
           password = arg_sftp_password a, port = arg_sftp_port a,
           ssh = False, sftp = False\<rparr> s t1 =
        (Inr (exit_code (s \<noteq> None) res), m, t3)"
    using conn run by (simp add: main_try_def main_process_def)
  with csv fns s3 mode code show ?thesis
    by (simp add: main_def Let_def)
qed


text \<open>
  The three results on a file system with one CSV file: the names with the column that is
  there (the row with a blank name skipped), the empty list with a column that is not, and
  \<open>None\<close> for a file that is not there.
\<close>

lemma read_csv_filenames_examples:
  "read_csv_filenames mixed_env (ascii ''files.csv'') (ascii ''filename'') = Some [ascii ''a.csv'', ascii ''b.csv'']"
  "read_csv_filenames mixed_env (ascii ''files.csv'') (ascii ''name'') = Some []"
  "read_csv_filenames mixed_env (ascii ''nowhere.csv'') (ascii ''filename'') = None"
  by code_simp+

end
